theory Spec2Isabelle
  imports Complex_Main "HOL-Library.Char_ord"
begin

section \<open>The web scanner: scan pipeline, scoring and top issues\<close>

text \<open>
  A shallow embedding of the scan function of the repository (the edge function with
  \<^verbatim>\<open>processScan\<close>, \<^verbatim>\<open>performScan\<close>, the six analyzers,
  \<^verbatim>\<open>extractTopIssues\<close> and \<^verbatim>\<open>calculateOverallScore\<close>).

  Conventions of the embedding:
  \<^item> a JavaScript string is a \<^typ>\<open>string\<close>, one \<^typ>\<open>char\<close> per code unit
    (code units above 255 are outside the model);
  \<^item> a JavaScript number that only ever holds an integer is an \<^typ>\<open>int\<close> or a
    \<^typ>\<open>nat\<close>; the numbers of the score aggregation are exact rationals
    (\<^typ>\<open>rat\<close>), so its sums, products and quotients carry no rounding error of the
    IEEE double format; the measured load time is the double the program computes, given
    by the world as the rational it denotes, so no arithmetic on it is idealised;
  \<^item> an optional field of an object is an \<^typ>\<open>'a option\<close>, \<open>None\<close> being
    \<^verbatim>\<open>undefined\<close> (or \<^verbatim>\<open>null\<close>);
  \<^item> a promise that rejects, and a statement that throws, is \<open>Inl\<close> of the thrown
    value; \<^verbatim>\<open>try\<close>/\<^verbatim>\<open>catch\<close> is \<open>try_catch\<close>;
  \<^item> everything the function reads from outside (the responses of its own fetches, the
    environment variables, the measured load time, the document parser of the runtime, the page-speed
    service) is a field of the record \<open>world\<close>.
\<close>

subsection \<open>Thrown values and promises\<close>

datatype js_exn = ErrorObj string | Thrown

text \<open>\<^verbatim>\<open>error instanceof Error ? error.message : fallback\<close>\<close>

definition err_message :: "js_exn \<Rightarrow> string \<Rightarrow> string" where
  "err_message error fallback = (case error of ErrorObj m \<Rightarrow> m | Thrown \<Rightarrow> fallback)"

definition try_catch :: "js_exn + 'a \<Rightarrow> (js_exn \<Rightarrow> 'a) \<Rightarrow> 'a" where
  "try_catch body handler = (case body of Inl e \<Rightarrow> handler e | Inr v \<Rightarrow> v)"

definition await :: "js_exn + 'a \<Rightarrow> ('a \<Rightarrow> js_exn + 'b) \<Rightarrow> js_exn + 'b" where
  "await p k = (case p of Inl e \<Rightarrow> Inl e | Inr v \<Rightarrow> k v)"

subsection \<open>Truthiness and the operator \<^verbatim>\<open>||\<close>\<close>

definition truthy :: "string option \<Rightarrow> bool" where
  "truthy v = (case v of None \<Rightarrow> False | Some s \<Rightarrow> s \<noteq> [])"

definition or_opt :: "string option \<Rightarrow> string option \<Rightarrow> string option" where
  "or_opt a b = (if truthy a then a else b)"

definition or_str :: "string option \<Rightarrow> string \<Rightarrow> string" where
  "or_str a d = (case a of None \<Rightarrow> d | Some s \<Rightarrow> if s = [] then d else s)"

definition or_num :: "'a::zero option \<Rightarrow> 'a \<Rightarrow> 'a" where
  "or_num a d = (case a of None \<Rightarrow> d | Some n \<Rightarrow> if n = 0 then d else n)"

definition or_list :: "'a list option \<Rightarrow> 'a list \<Rightarrow> 'a list" where
  "or_list a d = (case a of None \<Rightarrow> d | Some xs \<Rightarrow> xs)"

subsection \<open>Strings\<close>

definition dquote :: char where
  "dquote = CHR 0x22"

definition squote :: char where
  "squote = CHR 0x27"

definition starts_with :: "string \<Rightarrow> string \<Rightarrow> bool" where
  "starts_with s p = (take (length p) s = p)"

fun str_includes :: "string \<Rightarrow> string \<Rightarrow> bool" where
  "str_includes [] sub = (sub = [])"
| "str_includes (c # cs) sub = (starts_with (c # cs) sub \<or> str_includes cs sub)"

text \<open>White space and line terminators of the language, among the code units below 256.\<close>

definition is_space :: "char \<Rightarrow> bool" where
  "is_space c = ((of_char c :: nat) \<in> {9, 10, 11, 12, 13, 32, 160})"

definition trim :: "string \<Rightarrow> string" where
  "trim s = rev (dropWhile is_space (rev (dropWhile is_space s)))"

fun split_on :: "char \<Rightarrow> string \<Rightarrow> string list" where
  "split_on d [] = [[]]"
| "split_on d (c # cs) =
     (if c = d then [] # split_on d cs
      else (case split_on d cs of [] \<Rightarrow> [[c]] | p # ps \<Rightarrow> (c # p) # ps))"

definition nth_opt :: "'a list \<Rightarrow> nat \<Rightarrow> 'a option" where
  "nth_opt xs i = (if i < length xs then Some (xs ! i) else None)"

text \<open>Numbers in template literals.\<close>

fun show_nat :: "nat \<Rightarrow> string" where
  "show_nat n = (if n < 10 then [char_of (48 + n)] else show_nat (n div 10) @ [char_of (48 + n mod 10)])"

declare show_nat.simps [simp del]

definition show_int :: "int \<Rightarrow> string" where
  "show_int i = (if i < 0 then CHR ''-'' # show_nat (nat (- i)) else show_nat (nat i))"

text \<open>\<^verbatim>\<open>Math.round\<close>: the nearest integer, a tie going up.\<close>

definition js_round :: "rat \<Rightarrow> int" where
  "js_round x = \<lfloor>x + 1 / 2\<rfloor>"

subsection \<open>Regular expressions\<close>

text \<open>
  The regular expressions of the source, as syntax trees, and a backtracking matcher for
  them. \<open>ms ci r st\<close> lists the states in which a match of \<open>r\<close> started in \<open>st\<close> can
  end, in the order in which backtracking tries them; the head is the match the engine
  reports. A state holds the characters already passed (latest first), the characters
  ahead and the capture groups. \<open>ci\<close> is the flag \<^verbatim>\<open>i\<close>. An iteration of a star
  that consumes nothing is rejected, as in the language.
\<close>

datatype regex =
    Eps
  | Lit char
  | Cls "char \<Rightarrow> bool"
  | Seq regex regex
  | Alt regex regex
  | Star regex
  | LazyStar regex
  | NotAhead regex
  | WordB
  | Grp nat regex

datatype mstate = MState (seen: string) (rest: string) (caps: "(nat \<times> string) list")

text \<open>Case folding of the flag \<^verbatim>\<open>i\<close>: a letter \<open>a\<close> to \<open>z\<close> goes to its capital, every
  other code unit stays. (The language also folds the letters above 127, but never onto a
  code unit below 128, and every literal of the source's expressions is below 128; the
  character classes of the expressions with the flag hold no letter.)\<close>

definition upper_table :: "(char \<times> char) list" where
  "upper_table = zip ''abcdefghijklmnopqrstuvwxyz'' ''ABCDEFGHIJKLMNOPQRSTUVWXYZ''"

definition to_upper :: "char \<Rightarrow> char" where
  "to_upper c = (case map_of upper_table c of None \<Rightarrow> c | Some u \<Rightarrow> u)"

definition eq_char :: "bool \<Rightarrow> char \<Rightarrow> char \<Rightarrow> bool" where
  "eq_char ci x c = (if ci then to_upper x = to_upper c else x = c)"

definition is_word :: "char \<Rightarrow> bool" where
  "is_word c = ((CHR ''a'' \<le> c \<and> c \<le> CHR ''z'') \<or> (CHR ''A'' \<le> c \<and> c \<le> CHR ''Z'')
     \<or> (CHR ''0'' \<le> c \<and> c \<le> CHR ''9'') \<or> c = CHR ''_'')"

definition at_boundary :: "mstate \<Rightarrow> bool" where
  "at_boundary st =
     ((case seen st of [] \<Rightarrow> False | a # _ \<Rightarrow> is_word a) \<noteq>
      (case rest st of [] \<Rightarrow> False | b # _ \<Rightarrow> is_word b))"

definition progress :: "mstate \<Rightarrow> mstate \<Rightarrow> bool" where
  "progress st st' = (length (rest st') < length (rest st))"

definition capture :: "nat \<Rightarrow> mstate \<Rightarrow> mstate \<Rightarrow> mstate" where
  "capture n st st' =
     MState (seen st') (rest st')
       ((n, take (length (rest st) - length (rest st')) (rest st)) # caps st')"

definition reach :: "mstate list \<Rightarrow> nat" where
  "reach sts = Max (set (0 # map (\<lambda>s. Suc (length (rest s))) sts))"

lemma reach_filter_progress: "reach (filter (progress st) sts) < Suc (length (rest st))"
  unfolding reach_def by (subst Max_less_iff) (auto simp: progress_def)

lemma reach_Cons_ge: "Suc (length (rest st)) \<le> reach (st # sts)"
  unfolding reach_def by (intro Max_ge) auto

lemma reach_Cons_mono: "reach sts \<le> reach (st # sts)"
  unfolding reach_def by (intro Max_mono) auto

function ms :: "bool \<Rightarrow> regex \<Rightarrow> mstate \<Rightarrow> mstate list"
  and ms_each :: "bool \<Rightarrow> regex \<Rightarrow> mstate list \<Rightarrow> mstate list" where
  "ms ci Eps st = [st]"
| "ms ci (Lit c) st =
     (case rest st of [] \<Rightarrow> []
      | x # xs \<Rightarrow> if eq_char ci x c then [MState (x # seen st) xs (caps st)] else [])"
| "ms ci (Cls p) st =
     (case rest st of [] \<Rightarrow> []
      | x # xs \<Rightarrow> if p x then [MState (x # seen st) xs (caps st)] else [])"
| "ms ci (Seq r1 r2) st = ms_each ci r2 (ms ci r1 st)"
| "ms ci (Alt r1 r2) st = ms ci r1 st @ ms ci r2 st"
| "ms ci (Star r) st = ms_each ci (Star r) (filter (progress st) (ms ci r st)) @ [st]"
| "ms ci (LazyStar r) st = st # ms_each ci (LazyStar r) (filter (progress st) (ms ci r st))"
| "ms ci (NotAhead r) st = (if ms ci r st = [] then [st] else [])"
| "ms ci WordB st = (if at_boundary st then [st] else [])"
| "ms ci (Grp n r) st = map (capture n st) (ms ci r st)"
| "ms_each ci r [] = []"
| "ms_each ci r (st # sts) = ms ci r st @ ms_each ci r sts"
  by pat_completeness auto
termination
  apply (relation "inv_image (less_than <*lex*> less_than <*lex*> less_than)
    (\<lambda>x. case x of
       Inl (ci, r, st) \<Rightarrow> (size r, Suc (length (rest st)), 0)
     | Inr (ci, r, sts) \<Rightarrow> (size r, reach sts, length sts))")
  apply (simp_all add: reach_filter_progress)
  subgoal by (intro wf_inv_image wf_lex_prod wf_less_than)
  subgoal for st sts using reach_Cons_ge[of st sts] by linarith
  subgoal for st sts using reach_Cons_mono[of sts st] by linarith
  done

definition matched :: "string \<Rightarrow> mstate \<Rightarrow> string" where
  "matched input st = take (length input - length (rest st)) input"

text \<open>
  \<^verbatim>\<open>s.match(r)\<close> without the flag \<^verbatim>\<open>g\<close>, and \<^verbatim>\<open>r.test(s)\<close>: the
  leftmost position where a match starts; the result is the matched text and the groups.
\<close>

fun search_from :: "bool \<Rightarrow> regex \<Rightarrow> string \<Rightarrow> string \<Rightarrow> (string \<times> (nat \<times> string) list) option" where
  "search_from ci r sn [] =
     (case ms ci r (MState sn [] []) of [] \<Rightarrow> None | st # _ \<Rightarrow> Some ([], caps st))"
| "search_from ci r sn (c # cs) =
     (case ms ci r (MState sn (c # cs) []) of
        [] \<Rightarrow> search_from ci r (c # sn) cs
      | st # _ \<Rightarrow> Some (matched (c # cs) st, caps st))"

definition regex_match :: "bool \<Rightarrow> regex \<Rightarrow> string \<Rightarrow> (string \<times> (nat \<times> string) list) option" where
  "regex_match ci r s = search_from ci r [] s"

definition test :: "bool \<Rightarrow> regex \<Rightarrow> string \<Rightarrow> bool" where
  "test ci r s = (regex_match ci r s \<noteq> None)"

definition group :: "nat \<Rightarrow> (string \<times> (nat \<times> string) list) option \<Rightarrow> string option" where
  "group n m = (case m of None \<Rightarrow> None | Some (_, cs) \<Rightarrow> map_of cs n)"

text \<open>
  \<^verbatim>\<open>s.match(r) || []\<close> with the flag \<^verbatim>\<open>g\<close>: the matched texts from left to
  right. After a match of \<open>n\<close> characters the search goes on \<open>n\<close> characters further
  (one character further after an empty match): \<open>skip\<close> counts the characters still to
  pass.
\<close>

fun match_from :: "bool \<Rightarrow> regex \<Rightarrow> string \<Rightarrow> string \<Rightarrow> nat \<Rightarrow> string list" where
  "match_from ci r sn [] skip =
     (if 0 < skip then []
      else (case ms ci r (MState sn [] []) of [] \<Rightarrow> [] | st # _ \<Rightarrow> [[]]))"
| "match_from ci r sn (c # cs) skip =
     (if 0 < skip then match_from ci r (c # sn) cs (skip - 1)
      else (case ms ci r (MState sn (c # cs) []) of
              [] \<Rightarrow> match_from ci r (c # sn) cs 0
            | st # _ \<Rightarrow>
                matched (c # cs) st
                  # match_from ci r (c # sn) cs (length (matched (c # cs) st) - 1)))"

definition match_all :: "bool \<Rightarrow> regex \<Rightarrow> string \<Rightarrow> string list" where
  "match_all ci r s = match_from ci r [] s 0"

text \<open>\<^verbatim>\<open>s.replace(r, '')\<close> with the flag \<^verbatim>\<open>g\<close>.\<close>

fun remove_from :: "bool \<Rightarrow> regex \<Rightarrow> string \<Rightarrow> string \<Rightarrow> nat \<Rightarrow> string" where
  "remove_from ci r sn [] skip = []"
| "remove_from ci r sn (c # cs) skip =
     (if 0 < skip then remove_from ci r (c # sn) cs (skip - 1)
      else (case ms ci r (MState sn (c # cs) []) of
              [] \<Rightarrow> c # remove_from ci r (c # sn) cs 0
            | st # _ \<Rightarrow>
                (if matched (c # cs) st = [] then c # remove_from ci r (c # sn) cs 0
                 else remove_from ci r (c # sn) cs (length (matched (c # cs) st) - 1))))"

definition remove_all :: "bool \<Rightarrow> regex \<Rightarrow> string \<Rightarrow> string" where
  "remove_all ci r s = remove_from ci r [] s 0"

text \<open>Abbreviations for writing the expressions.\<close>

fun lits :: "string \<Rightarrow> regex" where
  "lits [] = Eps"
| "lits (c # cs) = Seq (Lit c) (lits cs)"

fun seqs :: "regex list \<Rightarrow> regex" where
  "seqs [] = Eps"
| "seqs (r # rs) = Seq r (seqs rs)"

fun alts :: "string list \<Rightarrow> regex" where
  "alts [] = NotAhead Eps"
| "alts [s] = lits s"
| "alts (s # ss) = Alt (lits s) (alts ss)"

definition Plus :: "regex \<Rightarrow> regex" where
  "Plus r = Seq r (Star r)"

definition Opt :: "regex \<Rightarrow> regex" where
  "Opt r = Alt r Eps"

definition any_of :: "string \<Rightarrow> regex" where
  "any_of cs = Cls (\<lambda>c. c \<in> set cs)"

definition none_of :: "string \<Rightarrow> regex" where
  "none_of cs = Cls (\<lambda>c. c \<notin> set cs)"

definition between :: "char \<Rightarrow> char \<Rightarrow> regex" where
  "between a b = Cls (\<lambda>c. a \<le> c \<and> c \<le> b)"

definition digit :: regex where
  "digit = between CHR ''0'' CHR ''9''"

definition space :: regex where
  "space = Cls is_space"

definition any_char :: regex where
  "any_char = Cls (\<lambda>c. True)"

definition quote :: regex where
  "quote = any_of [dquote, squote]"

definition not_quote :: regex where
  "not_quote = none_of [dquote, squote]"

definition not_gt :: regex where
  "not_gt = none_of ''>''"

definition open_tag :: "string \<Rightarrow> regex" where
  "open_tag name = seqs [lits (CHR ''<'' # name), Star not_gt, Lit CHR ''>'']"

subsection \<open>The regular expressions of the source\<close>

text \<open>The markup analyzer's fallback (all with the flags \<^verbatim>\<open>gi\<close>, the last with \<^verbatim>\<open>g\<close>):
  \<^verbatim>\<open>/<button[^>]*>([\s\S]*?)<\/button>/\<close>,
  \<^verbatim>\<open>/<a[^>]*href=["']([^"']*)["'][^>]*>/\<close>, \<^verbatim>\<open>/<form[^>]*>/\<close>,
  \<^verbatim>\<open>/<[^>]*>/\<close>.\<close>

definition re_button :: regex where
  "re_button = seqs [lits ''<button'', Star not_gt, Lit CHR ''>'', Grp 1 (LazyStar any_char),
     lits ''</button>'']"

definition re_link :: regex where
  "re_link = seqs [lits ''<a'', Star not_gt, lits ''href='', quote, Grp 1 (Star not_quote), quote,
     Star not_gt, Lit CHR ''>'']"

definition re_form :: regex where
  "re_form = open_tag ''form''"

definition re_tag :: regex where
  "re_tag = open_tag []"

text \<open>The API analyzer:
  \<^verbatim>\<open>/fetch\(["']([^"']+)["']|axios\.[a-z]+\(["']([^"']+)["']|\$\.ajax\(["']([^"']+)["']/g\<close>
  and \<^verbatim>\<open>/["']([^"']+)["']/\<close>.\<close>

definition re_call :: regex where
  "re_call =
     Alt (seqs [lits ''fetch('', quote, Grp 1 (Plus not_quote), quote])
      (Alt (seqs [lits ''axios.'', Plus (between CHR ''a'' CHR ''z''), Lit CHR ''('', quote,
                  Grp 2 (Plus not_quote), quote])
           (seqs [lits ''$.ajax('', quote, Grp 3 (Plus not_quote), quote]))"

definition re_quoted :: regex where
  "re_quoted = seqs [quote, Grp 1 (Plus not_quote), quote]"

text \<open>The security analyzer: \<^verbatim>\<open>/document\.cookie\s*=/gi\<close>.\<close>

definition re_cookie :: regex where
  "re_cookie = seqs [lits ''document.cookie'', Star space, Lit CHR ''='']"

text \<open>The basic performance scan (flags \<^verbatim>\<open>gi\<close>): \<^verbatim>\<open>/<img[^>]*>/\<close>,
  \<^verbatim>\<open>/<script[^>]*>/\<close>, \<^verbatim>\<open>/<link[^>]*rel=["']stylesheet["'][^>]*>/\<close>.\<close>

definition re_img :: regex where
  "re_img = open_tag ''img''"

definition re_script :: regex where
  "re_script = open_tag ''script''"

definition re_stylesheet :: regex where
  "re_stylesheet = seqs [lits ''<link'', Star not_gt, lits ''rel='', quote, lits ''stylesheet'', quote,
     Star not_gt, Lit CHR ''>'']"

text \<open>The accessibility analyzer: \<^verbatim>\<open>/<img(?![^>]*alt=)[^>]*>/gi\<close>,
  \<^verbatim>\<open>/<html[^>]*lang=/i\<close>, \<^verbatim>\<open>/<button[^>]*>\s*<\/button>/gi\<close>,
  \<^verbatim>\<open>/<input[^>]*>/gi\<close>, \<^verbatim>\<open>/<label[^>]*>/gi\<close>,
  \<^verbatim>\<open>/<h[1-6][^>]*>/gi\<close>, \<^verbatim>\<open>/<h1[^>]*>/gi\<close>,
  \<^verbatim>\<open>/<a[^>]*href=[^>]*>\s*<\/a>/gi\<close>,
  \<^verbatim>\<open>/<a[^>]*href=["']#(main|content|skip)["'][^>]*>/i\<close>,
  \<^verbatim>\<open>/tabindex=["']-\d+["']/gi\<close>.\<close>

definition re_img_no_alt :: regex where
  "re_img_no_alt = seqs [lits ''<img'', NotAhead (Seq (Star not_gt) (lits ''alt='')), Star not_gt,
     Lit CHR ''>'']"

definition re_html_lang :: regex where
  "re_html_lang = seqs [lits ''<html'', Star not_gt, lits ''lang='']"

definition re_empty_button :: regex where
  "re_empty_button = seqs [lits ''<button'', Star not_gt, Lit CHR ''>'', Star space, lits ''</button>'']"

definition re_input :: regex where
  "re_input = open_tag ''input''"

definition re_label :: regex where
  "re_label = open_tag ''label''"

definition re_heading :: regex where
  "re_heading = seqs [lits ''<h'', between CHR ''1'' CHR ''6'', Star not_gt, Lit CHR ''>'']"

definition re_h1 :: regex where
  "re_h1 = open_tag ''h1''"

definition re_empty_link :: regex where
  "re_empty_link = seqs [lits ''<a'', Star not_gt, lits ''href='', Star not_gt, Lit CHR ''>'',
     Star space, lits ''</a>'']"

definition re_skip_link :: regex where
  "re_skip_link = seqs [lits ''<a'', Star not_gt, lits ''href='', quote, Lit CHR ''#'',
     Grp 1 (alts [''main'', ''content'', ''skip'']), quote, Star not_gt, Lit CHR ''>'']"

definition re_tabindex :: regex where
  "re_tabindex = seqs [lits ''tabindex='', quote, Lit CHR ''-'', Plus digit, quote]"

text \<open>The tech-stack analyzer: \<^verbatim>\<open>/"buildId":"([^"]+)"/\<close>,
  \<^verbatim>\<open>/react[.-]?dom/i\<close>, \<^verbatim>\<open>/vue[.-]?js/i\<close>,
  \<^verbatim>\<open>/<[^>]*ng-[^>]*>/i\<close>, \<^verbatim>\<open>/ng-version="([^"]+)"/\<close>,
  \<^verbatim>\<open>wp-content/themes/[^/]+/([0-9.]+)\<close>,
  \<^verbatim>\<open>/sites\/(default|all)\/modules/i\<close>,
  \<^verbatim>\<open>/<script[^>]*src=["'][^"']*svelte[^"']*["']/i\<close>,
  \<^verbatim>\<open>/jquery[.-]?(\d+\.\d+\.\d+)?/i\<close>, \<^verbatim>\<open>/jquery[.-]?(\d+\.\d+\.\d+)/i\<close>,
  \<^verbatim>\<open>/class=["'][^"']*\b(flex|grid|bg-|text-|p-|m-|w-|h-)[^"']*["']/\<close>,
  \<^verbatim>\<open>/class=["'][^"']*\b(container|row|col-|btn|navbar)[^"']*["']/\<close>.\<close>

definition re_buildId :: regex where
  "re_buildId = seqs [Lit dquote, lits ''buildId'', Lit dquote, Lit CHR '':'', Lit dquote,
     Grp 1 (Plus (none_of [dquote])), Lit dquote]"

definition re_react_dom :: regex where
  "re_react_dom = seqs [lits ''react'', Opt (any_of ''.-''), lits ''dom'']"

definition re_vue_js :: regex where
  "re_vue_js = seqs [lits ''vue'', Opt (any_of ''.-''), lits ''js'']"

definition re_ng_attr :: regex where
  "re_ng_attr = seqs [Lit CHR ''<'', Star not_gt, lits ''ng-'', Star not_gt, Lit CHR ''>'']"

definition re_ng_version :: regex where
  "re_ng_version = seqs [lits ''ng-version='', Lit dquote, Grp 1 (Plus (none_of [dquote])), Lit dquote]"

definition re_wp_version :: regex where
  "re_wp_version = seqs [lits ''wp-content/themes/'', Plus (none_of ''/''), Lit CHR ''/'',
     Grp 1 (Plus (Alt digit (Lit CHR ''.'')))]"

definition re_drupal :: regex where
  "re_drupal = seqs [lits ''sites/'', Grp 1 (alts [''default'', ''all'']), lits ''/modules'']"

definition re_svelte :: regex where
  "re_svelte = seqs [lits ''<script'', Star not_gt, lits ''src='', quote, Star not_quote, lits ''svelte'',
     Star not_quote, quote]"

definition semver :: regex where
  "semver = seqs [Plus digit, Lit CHR ''.'', Plus digit, Lit CHR ''.'', Plus digit]"

definition re_jquery :: regex where
  "re_jquery = seqs [lits ''jquery'', Opt (any_of ''.-''), Opt (Grp 1 semver)]"

definition re_jquery_version :: regex where
  "re_jquery_version = seqs [lits ''jquery'', Opt (any_of ''.-''), Grp 1 semver]"

definition re_tailwind :: regex where
  "re_tailwind = seqs [lits ''class='', quote, Star not_quote, WordB,
     Grp 1 (alts [''flex'', ''grid'', ''bg-'', ''text-'', ''p-'', ''m-'', ''w-'', ''h-'']),
     Star not_quote, quote]"

definition re_bootstrap :: regex where
  "re_bootstrap = seqs [lits ''class='', quote, Star not_quote, WordB,
     Grp 1 (alts [''container'', ''row'', ''col-'', ''btn'', ''navbar'']),
     Star not_quote, quote]"

subsection \<open>Results of the analyzers\<close>

datatype status = Pending | Completed | Failed

text \<open>
  \<^verbatim>\<open>PipelineSection<T>\<close>: the payload of an analyzer with a status and an error
  message. A field is optional where one of the objects the source builds for the slot
  leaves it out (the placeholders of \<^verbatim>\<open>performScan\<close> hold a status only).
\<close>

record e2e_section =
  e2e_status :: status
  e2e_error :: "string option"
  e2e_buttons_found :: "nat option"
  e2e_links_found :: "nat option"
  e2e_forms_found :: "nat option"
  e2e_primary_actions :: "string list option"

record endpoint =
  ep_method :: string
  ep_path :: string
  ep_status :: nat

record api_section =
  api_status :: status
  api_error :: "string option"
  api_endpoints_detected :: "nat option"
  api_endpoints :: "endpoint list option"

record sec_issue =
  sec_severity :: string
  sec_category :: "string option"
  sec_description :: "string option"
  sec_message :: "string option"

record security_section =
  sec_status :: status
  sec_error :: "string option"
  sec_issues :: "sec_issue list option"
  sec_checks_performed :: "int option"
  sec_checks_passed :: "int option"
  sec_https_enabled :: "bool option"

record lighthouse =
  lh_performance :: "int option"
  lh_seo :: "int option"
  lh_accessibility :: "int option"
  lh_bestPractices :: "int option"

record vitals =
  cwv_fcp :: int
  cwv_lcp :: int
  cwv_tti :: int
  cwv_tbt :: int
  cwv_cls :: rat
  cwv_speedIndex :: int

record audit_item =
  au_title :: string
  au_description :: "string option"
  au_score :: rat
  au_savings :: "rat option"

record performance_section =
  perf_status :: status
  perf_error :: "string option"
  perf_score :: "int option"
  perf_load_time_ms :: "int option"
  perf_image_count :: "nat option"
  perf_scripts_count :: "nat option"
  perf_stylesheets_count :: "nat option"
  perf_compression_enabled :: "bool option"
  perf_caching_enabled :: "bool option"
  perf_lighthouse_scores :: "lighthouse option"
  perf_core_web_vitals :: "vitals option"
  perf_opportunities :: "audit_item list option"
  perf_diagnostics :: "audit_item list option"
  perf_source :: "string option"

record acc_issue =
  acc_severity :: string
  acc_count :: "nat option"
  acc_message :: "string option"
  acc_wcag :: "string option"

record accessibility_section =
  acc_status :: status
  acc_error :: "string option"
  acc_issues :: "acc_issue list option"
  acc_total_issues :: "nat option"
  acc_score :: "int option"
  acc_wcag_level :: "string option"

record tech =
  tech_name :: string
  tech_confidence :: string
  tech_version :: "string option"
  tech_category :: string

record techstack_section =
  ts_status :: status
  ts_error :: "string option"
  ts_detected :: "tech list option"
  ts_total_detected :: "nat option"

record pipeline_results =
  e2e :: e2e_section
  api :: api_section
  security :: security_section
  performance :: performance_section
  accessibility :: accessibility_section
  techStack :: techstack_section

record top_issue =
  category :: string
  severity :: string
  description :: string

subsection \<open>The world of one scan\<close>

text \<open>
  A response of \<^verbatim>\<open>fetch\<close>: \<open>resp_headers r name\<close> is
  \<^verbatim>\<open>response.headers.get(name)\<close>, \<open>resp_text\<close> is the promise of
  \<^verbatim>\<open>response.text()\<close>.
\<close>

record response =
  resp_ok :: bool
  resp_status :: nat
  resp_headers :: "string \<Rightarrow> string option"
  resp_text :: "js_exn + string"

text \<open>
  What the markup analyzer reads from the document the runtime's parser builds: the text
  content of each \<^verbatim>\<open>button\<close> element, and how many elements
  \<^verbatim>\<open>a[href]\<close> and \<^verbatim>\<open>form\<close> select.
\<close>

record dom_doc =
  dom_buttons :: "string option list"
  dom_anchors :: nat
  dom_forms :: nat

text \<open>
  What the page-speed branch computes from the service's report when nothing throws on the
  way: the four category scores after \<^verbatim>\<open>Math.round(score * 100)\<close>, the rounded
  metrics, and the audits it keeps. The mapping itself is not modelled.
\<close>

record psi_report =
  psi_performanceScore :: int
  psi_accessibilityScore :: int
  psi_bestPracticesScore :: int
  psi_seoScore :: int
  psi_load_time_ms :: int
  psi_vitals :: vitals
  psi_image_count :: nat
  psi_compression_enabled :: bool
  psi_caching_enabled :: bool
  psi_opportunities :: "audit_item list"
  psi_diagnostics :: "audit_item list"

text \<open>
  Each analyzer issues its own request, so the world holds one fetch result per analyzer.
  \<open>dom_parser\<close> is \<^verbatim>\<open>new DOMParser().parseFromString(html, 'text/html')\<close>
  with the three selections (it throws where the runtime has no such parser);
  \<open>pagespeed\<close> is the outcome of the \<^verbatim>\<open>try\<close> block of
  \<^verbatim>\<open>performGooglePageSpeedScan\<close> (\<open>Inl\<close> for a rejected request, a status
  that is not OK, or a report that cannot be read); \<open>perf_load_time\<close> is the value
  of \<^verbatim>\<open>endTime - startTime\<close> as the program computes it from its two readings of
  \<^verbatim>\<open>performance.now()\<close>: the difference in double arithmetic, as the rational that
  double denotes; \<open>ai_analysis\<close> is the result of \<^verbatim>\<open>generateAIAnalysis\<close>.
\<close>

record world =
  env :: "string \<Rightarrow> string option"
  e2e_fetch :: "js_exn + response"
  dom_parser :: "string \<Rightarrow> js_exn + dom_doc"
  api_fetch :: "js_exn + response"
  sec_fetch :: "js_exn + response"
  pagespeed :: "js_exn + psi_report"
  perf_fetch :: "js_exn + response"
  perf_load_time :: rat
  acc_fetch :: "js_exn + response"
  tech_fetch :: "js_exn + response"
  ai_analysis :: "js_exn + (string option \<times> string list)"

definition push_if :: "bool \<Rightarrow> 'a \<Rightarrow> 'a list \<Rightarrow> 'a list" where
  "push_if c x xs = (if c then xs @ [x] else xs)"

subsection \<open>The markup analyzer, \<^verbatim>\<open>performE2EScan\<close>\<close>

definition e2e_failed :: "string \<Rightarrow> e2e_section" where
  "e2e_failed msg =
     \<lparr>e2e_status = Failed, e2e_error = Some msg, e2e_buttons_found = Some 0,
      e2e_links_found = Some 0, e2e_forms_found = Some 0, e2e_primary_actions = Some []\<rparr>"

definition e2e_dom :: "dom_doc \<Rightarrow> e2e_section" where
  "e2e_dom doc =
     (let buttons = dom_buttons doc;
          primaryActions = take 5 (filter (\<lambda>s. s \<noteq> []) (map (\<lambda>b. trim (or_str b [])) buttons))
      in \<lparr>e2e_status = Completed, e2e_error = None, e2e_buttons_found = Some (length buttons),
          e2e_links_found = Some (dom_anchors doc), e2e_forms_found = Some (dom_forms doc),
          e2e_primary_actions = Some primaryActions\<rparr>)"

definition e2e_regex :: "string \<Rightarrow> e2e_section" where
  "e2e_regex html =
     (let buttonMatches = match_all True re_button html;
          linkMatches = match_all True re_link html;
          formMatches = match_all True re_form html
      in \<lparr>e2e_status = Completed, e2e_error = None, e2e_buttons_found = Some (length buttonMatches),
          e2e_links_found = Some (length linkMatches), e2e_forms_found = Some (length formMatches),
          e2e_primary_actions =
            Some (filter (\<lambda>s. s \<noteq> [])
              (map (\<lambda>btn. trim (remove_all False re_tag btn)) (take 5 buttonMatches)))\<rparr>)"

definition performE2EScan :: "world \<Rightarrow> string \<Rightarrow> e2e_section" where
  "performE2EScan w url =
     try_catch
       (await (e2e_fetch w) (\<lambda>response.
          if \<not> resp_ok response then
            Inr (e2e_failed (''HTTP '' @ show_nat (resp_status response)))
          else
            await (resp_text response) (\<lambda>html.
              Inr (try_catch
                (await (dom_parser w html) (\<lambda>doc. Inr (e2e_dom doc)))
                (\<lambda>_. e2e_regex html)))))
       (\<lambda>error. e2e_failed (err_message error ''E2E scan failed''))"

subsection \<open>The API analyzer, \<^verbatim>\<open>performAPIScan\<close>\<close>

definition api_endpoint_of :: "string \<Rightarrow> endpoint list" where
  "api_endpoint_of m =
     (case group 1 (regex_match False re_quoted m) of
        None \<Rightarrow> []
      | Some path \<Rightarrow>
          if path \<noteq> [] \<and> starts_with path ''/''
          then [\<lparr>ep_method = ''GET'', ep_path = path, ep_status = 0\<rparr>] else [])"

definition performAPIScan :: "world \<Rightarrow> string \<Rightarrow> api_section" where
  "performAPIScan w url =
     try_catch
       (await (api_fetch w) (\<lambda>response.
          await (resp_text response) (\<lambda>html.
            let scriptMatches = match_all False re_call html;
                endpoints = concat (map api_endpoint_of scriptMatches)
            in Inr \<lparr>api_status = Completed, api_error = None,
                    api_endpoints_detected = Some (length endpoints),
                    api_endpoints = Some (take 10 endpoints)\<rparr>)))
       (\<lambda>error.
          \<lparr>api_status = Failed, api_error = Some (err_message error ''API scan failed''),
           api_endpoints_detected = Some 0, api_endpoints = Some []\<rparr>)"

subsection \<open>The security analyzer, \<^verbatim>\<open>performSecurityScan\<close>\<close>

definition security_issue :: "string \<Rightarrow> string \<Rightarrow> sec_issue" where
  "security_issue sev descr =
     \<lparr>sec_severity = sev, sec_category = Some ''Security'', sec_description = Some descr,
      sec_message = None\<rparr>"

definition hsts_issue :: sec_issue where
  "hsts_issue = security_issue ''high''
     ''Missing HSTS header - site vulnerable to protocol downgrade attacks''"

definition nosniff_issue :: sec_issue where
  "nosniff_issue = security_issue ''medium''
     ''Missing X-Content-Type-Options header - vulnerable to MIME sniffing''"

definition clickjacking_issue :: sec_issue where
  "clickjacking_issue = security_issue ''high''
     ''Missing X-Frame-Options/CSP - vulnerable to clickjacking attacks''"

definition csp_issue :: sec_issue where
  "csp_issue = security_issue ''medium''
     ''No Content-Security-Policy - vulnerable to XSS attacks''"

definition xss_issue :: sec_issue where
  "xss_issue = security_issue ''low'' ''Missing X-XSS-Protection header''"

definition cookie_issue :: sec_issue where
  "cookie_issue = security_issue ''high''
     ''JavaScript cookie manipulation detected - potential XSS vector''"

definition header_issues :: "(string \<Rightarrow> string option) \<Rightarrow> sec_issue list" where
  "header_issues headers =
     (let issues = [];
          issues = push_if (\<not> truthy (headers ''strict-transport-security'')) hsts_issue issues;
          issues = push_if (\<not> truthy (headers ''x-content-type-options'')) nosniff_issue issues;
          issues = push_if (\<not> truthy (headers ''x-frame-options'')
                            \<and> \<not> truthy (headers ''content-security-policy''))
                     clickjacking_issue issues;
          csp = headers ''content-security-policy'';
          issues = push_if (\<not> truthy csp) csp_issue issues;
          issues = push_if (\<not> truthy (headers ''x-xss-protection'')) xss_issue issues
      in issues)"

definition performSecurityScan :: "world \<Rightarrow> string \<Rightarrow> security_section" where
  "performSecurityScan w url =
     try_catch
       (await (sec_fetch w) (\<lambda>response.
          let issues = header_issues (resp_headers response) in
          await (resp_text response) (\<lambda>html.
            let cookieMatches = match_all True re_cookie html;
                issues = push_if (0 < length cookieMatches) cookie_issue issues
            in Inr \<lparr>sec_status = Completed, sec_error = None, sec_issues = Some issues,
                    sec_checks_performed = Some 7,
                    sec_checks_passed = Some (7 - int (length issues)),
                    sec_https_enabled = Some (starts_with url ''https'')\<rparr>)))
       (\<lambda>error.
          \<lparr>sec_status = Failed, sec_error = Some (err_message error ''Security scan failed''),
           sec_issues = Some [], sec_checks_performed = Some 0, sec_checks_passed = Some 0,
           sec_https_enabled = Some False\<rparr>)"

subsection \<open>The performance analyzer\<close>

text \<open>The score of the basic scan: the statements from \<^verbatim>\<open>let score = 100\<close> to
  \<^verbatim>\<open>score = Math.max(0, score)\<close>, as a function of the values they read.\<close>

definition basic_score :: "rat \<Rightarrow> nat \<Rightarrow> nat \<Rightarrow> nat \<Rightarrow> bool option \<Rightarrow> bool \<Rightarrow> int" where
  "basic_score loadTime imageCount scriptCount stylesheetCount hasGzip hasCaching =
     (let score = (100 :: int);
          score = (if loadTime > 3000 then score - 30
                   else if loadTime > 1500 then score - 15 else score);
          score = (if imageCount > 20 then score - 10 else score);
          score = (if scriptCount > 15 then score - 10 else score);
          score = (if stylesheetCount > 5 then score - 5 else score);
          score = (if hasGzip \<noteq> Some True then score - 15 else score);
          score = (if \<not> hasCaching then score - 10 else score);
          score = max 0 score
      in score)"

text \<open>\<^verbatim>\<open>performBasicPerformanceScan\<close>: it has no handler of its own, so a rejected
  fetch or body read rejects its promise. \<open>loadTime\<close> is the measured difference itself
  (\<open>perf_load_time\<close>); the comparisons with 3000 and 1500 and \<^verbatim>\<open>Math.round\<close> are
  exact on it. \<open>hasGzip\<close> is \<open>None\<close> where the source's expression is
  \<^verbatim>\<open>undefined\<close> (no \<^verbatim>\<open>content-encoding\<close> header).\<close>

definition performBasicPerformanceScan :: "world \<Rightarrow> string \<Rightarrow> js_exn + performance_section" where
  "performBasicPerformanceScan w url =
     await (perf_fetch w) (\<lambda>response.
       let loadTime = perf_load_time w in
       await (resp_text response) (\<lambda>html.
         let headers = resp_headers response;
             imageCount = length (match_all True re_img html);
             scriptCount = length (match_all True re_script html);
             stylesheetCount = length (match_all True re_stylesheet html);
             hasGzip = (case headers ''content-encoding'' of
                          None \<Rightarrow> None
                        | Some v \<Rightarrow> Some (str_includes v ''gzip'' \<or> str_includes v ''br''));
             hasCaching = truthy (headers ''cache-control'');
             score = basic_score loadTime imageCount scriptCount stylesheetCount hasGzip hasCaching
         in Inr \<lparr>perf_status = Completed, perf_error = None, perf_score = Some score,
                 perf_load_time_ms = Some (js_round loadTime),
                 perf_image_count = Some imageCount, perf_scripts_count = Some scriptCount,
                 perf_stylesheets_count = Some stylesheetCount,
                 perf_compression_enabled = hasGzip, perf_caching_enabled = Some hasCaching,
                 perf_lighthouse_scores =
                   Some \<lparr>lh_performance = Some score, lh_seo = Some (max 0 (score - 10)),
                         lh_accessibility = None, lh_bestPractices = None\<rparr>,
                 perf_core_web_vitals = None, perf_opportunities = None, perf_diagnostics = None,
                 perf_source = Some ''basic-scan''\<rparr>))"

text \<open>\<^verbatim>\<open>performGooglePageSpeedScan\<close>: whatever is thrown in its \<^verbatim>\<open>try\<close>
  block leads to the basic scan.\<close>

definition performGooglePageSpeedScan :: "world \<Rightarrow> string \<Rightarrow> string \<Rightarrow> js_exn + performance_section" where
  "performGooglePageSpeedScan w url apiKey =
     (case pagespeed w of
        Inr report \<Rightarrow>
          Inr \<lparr>perf_status = Completed, perf_error = None,
               perf_score = Some (psi_performanceScore report),
               perf_load_time_ms = Some (psi_load_time_ms report),
               perf_image_count = Some (psi_image_count report), perf_scripts_count = None,
               perf_stylesheets_count = None,
               perf_compression_enabled = Some (psi_compression_enabled report),
               perf_caching_enabled = Some (psi_caching_enabled report),
               perf_lighthouse_scores =
                 Some \<lparr>lh_performance = Some (psi_performanceScore report),
                       lh_seo = Some (psi_seoScore report),
                       lh_accessibility = Some (psi_accessibilityScore report),
                       lh_bestPractices = Some (psi_bestPracticesScore report)\<rparr>,
               perf_core_web_vitals = Some (psi_vitals report),
               perf_opportunities = Some (take 5 (psi_opportunities report)),
               perf_diagnostics = Some (take 5 (psi_diagnostics report)),
               perf_source = Some ''google-pagespeed''\<rparr>
      | Inl error \<Rightarrow> performBasicPerformanceScan w url)"

definition pagespeedApiKey :: "world \<Rightarrow> string option" where
  "pagespeedApiKey w =
     or_opt (env w ''GOOGLE_PAGESPEED_API_KEY'') (env w ''PAGE_PAGESPEED_INSIGHTS_API_KEY'')"

definition performPerformanceScan :: "world \<Rightarrow> string \<Rightarrow> performance_section" where
  "performPerformanceScan w url =
     try_catch
       (if truthy (pagespeedApiKey w)
        then performGooglePageSpeedScan w url (the (pagespeedApiKey w))
        else performBasicPerformanceScan w url)
       (\<lambda>error.
          \<lparr>perf_status = Failed,
           perf_error = Some (err_message error ''Performance scan failed''),
           perf_score = Some 0, perf_load_time_ms = Some 0, perf_image_count = None,
           perf_scripts_count = None, perf_stylesheets_count = None,
           perf_compression_enabled = None, perf_caching_enabled = None,
           perf_lighthouse_scores = None, perf_core_web_vitals = None,
           perf_opportunities = None, perf_diagnostics = None, perf_source = None\<rparr>)"

subsection \<open>The accessibility analyzer, \<^verbatim>\<open>performAccessibilityScan\<close>\<close>

definition severityPoints :: "string \<Rightarrow> int option" where
  "severityPoints = map_of [(''critical'', 25), (''high'', 15), (''medium'', 8), (''low'', 3)]"

definition accessibility_issues :: "string \<Rightarrow> acc_issue list" where
  "accessibility_issues html =
     (let issues = [];
          imgWithoutAlt = length (match_all True re_img_no_alt html);
          issues = push_if (imgWithoutAlt > 0)
            \<lparr>acc_severity = ''critical'', acc_count = Some imgWithoutAlt,
             acc_message = Some (show_nat imgWithoutAlt
               @ '' images missing alt text - screen readers cannot describe images''),
             acc_wcag = Some ''WCAG 2.1 Level A (1.1.1)''\<rparr> issues;
          hasLang = test True re_html_lang html;
          issues = push_if (\<not> hasLang)
            \<lparr>acc_severity = ''high'', acc_count = None,
             acc_message = Some
               ''Missing lang attribute on html element - affects screen reader pronunciation'',
             acc_wcag = Some ''WCAG 2.1 Level A (3.1.1)''\<rparr> issues;
          buttonWithoutText = length (match_all True re_empty_button html);
          issues = push_if (buttonWithoutText > 0)
            \<lparr>acc_severity = ''critical'', acc_count = Some buttonWithoutText,
             acc_message = Some (show_nat buttonWithoutText
               @ '' buttons without accessible text - screen readers cannot announce purpose''),
             acc_wcag = Some ''WCAG 2.1 Level A (4.1.2)''\<rparr> issues;
          inputCount = length (match_all True re_input html);
          labelCount = length (match_all True re_label html);
          issues = push_if (inputCount > labelCount + 2)
            \<lparr>acc_severity = ''high'', acc_count = Some (inputCount - labelCount),
             acc_message = Some (show_nat (inputCount - labelCount)
               @ '' form inputs possibly without labels - difficult for screen reader users''),
             acc_wcag = Some ''WCAG 2.1 Level A (1.3.1, 3.3.2)''\<rparr> issues;
          headingsMatch = match_all True re_heading html;
          h1Count = length (match_all True re_h1 html);
          issues =
            (if h1Count = 0 \<and> length headingsMatch > 0 then
               issues @ [\<lparr>acc_severity = ''medium'', acc_count = None,
                 acc_message = Some
                   ''Page has no H1 heading - impacts document structure and navigation'',
                 acc_wcag = Some ''WCAG 2.1 Level A (1.3.1)''\<rparr>]
             else if h1Count > 1 then
               issues @ [\<lparr>acc_severity = ''medium'', acc_count = None,
                 acc_message = Some (''Page has '' @ show_nat h1Count
                   @ '' H1 headings - should typically have only one''),
                 acc_wcag = Some ''WCAG 2.1 Best Practice''\<rparr>]
             else issues);
          linksWithoutText = length (match_all True re_empty_link html);
          issues = push_if (linksWithoutText > 0)
            \<lparr>acc_severity = ''high'', acc_count = Some linksWithoutText,
             acc_message = Some (show_nat linksWithoutText
               @ '' links without text - screen readers cannot announce destination''),
             acc_wcag = Some ''WCAG 2.1 Level A (2.4.4)''\<rparr> issues;
          hasSkipLink = test True re_skip_link html;
          issues = push_if (\<not> hasSkipLink)
            \<lparr>acc_severity = ''low'', acc_count = None,
             acc_message = Some
               ''No skip navigation link found - keyboard users must tab through all navigation'',
             acc_wcag = Some ''WCAG 2.1 Level A (2.4.1)''\<rparr> issues;
          tabindexNegative = length (match_all True re_tabindex html);
          issues = push_if (tabindexNegative > 0)
            \<lparr>acc_severity = ''medium'', acc_count = Some tabindexNegative,
             acc_message = Some (show_nat tabindexNegative
               @ '' elements with negative tabindex - removes from keyboard navigation''),
             acc_wcag = Some ''WCAG 2.1 Level A (2.1.1)''\<rparr> issues
      in issues)"

definition performAccessibilityScan :: "world \<Rightarrow> string \<Rightarrow> accessibility_section" where
  "performAccessibilityScan w url =
     try_catch
       (await (acc_fetch w) (\<lambda>response.
          await (resp_text response) (\<lambda>html.
            let issues = accessibility_issues html;
                totalDeduction =
                  foldl (\<lambda>sum issue. sum + or_num (severityPoints (acc_severity issue)) 10) 0 issues
            in Inr \<lparr>acc_status = Completed, acc_error = None, acc_issues = Some issues,
                    acc_total_issues = Some (length issues),
                    acc_score = Some (max 0 (100 - totalDeduction)),
                    acc_wcag_level = Some
                      (if list_ex (\<lambda>i. acc_severity i = ''critical'' \<or> acc_severity i = ''high'') issues
                       then ''Fails Level A'' else ''Passes Level A (potential AA issues)'')\<rparr>)))
       (\<lambda>error.
          \<lparr>acc_status = Failed,
           acc_error = Some (err_message error ''Accessibility scan failed''),
           acc_issues = Some [], acc_total_issues = Some 0, acc_score = Some 0,
           acc_wcag_level = Some ''Unable to determine''\<rparr>)"

subsection \<open>The tech-stack analyzer, \<^verbatim>\<open>detectTechStack\<close>\<close>

definition tech_entry :: "string \<Rightarrow> string \<Rightarrow> string option \<Rightarrow> string \<Rightarrow> tech" where
  "tech_entry n conf ver cat =
     \<lparr>tech_name = n, tech_confidence = conf, tech_version = ver, tech_category = cat\<rparr>"

definition tailwind_entry :: tech where
  "tailwind_entry = tech_entry ''Tailwind CSS'' ''medium'' None ''CSS Framework''"

definition bootstrap_entry :: tech where
  "bootstrap_entry = tech_entry ''Bootstrap'' ''low'' None ''CSS Framework''"

definition body_technologies :: "string \<Rightarrow> tech list" where
  "body_technologies html =
     (let detected = [];
          detected =
            (if str_includes html ''__NEXT_DATA__'' \<or> str_includes html ''_next/static'' then
               detected @ [tech_entry ''Next.js'' ''high''
                 (if truthy (group 1 (regex_match False re_buildId html))
                  then Some ''detected'' else None) ''Framework'']
             else if str_includes html ''react'' \<or> str_includes html ''React''
                     \<or> str_includes html ''_react'' \<or> test True re_react_dom html then
               detected @ [tech_entry ''React'' ''medium'' None ''Library'']
             else detected);
          detected =
            (if str_includes html ''__nuxt'' \<or> str_includes html ''_nuxt/'' then
               detected @ [tech_entry ''Nuxt.js'' ''high'' None ''Framework'']
             else if str_includes html ''vue'' \<or> str_includes html ''Vue''
                     \<or> test True re_vue_js html then
               detected @ [tech_entry ''Vue.js'' ''medium'' None ''Framework'']
             else detected);
          detected = push_if (str_includes html ''ng-version'' \<or> test True re_ng_attr html)
            (tech_entry ''Angular'' ''high'' (group 1 (regex_match False re_ng_version html))
               ''Framework'') detected;
          detected = push_if (str_includes html ''wp-content'' \<or> str_includes html ''wp-includes''
                              \<or> str_includes html ''/wordpress/'')
            (tech_entry ''WordPress'' ''high'' (group 1 (regex_match False re_wp_version html))
               ''CMS'') detected;
          detected = push_if (str_includes html ''Drupal'' \<or> test True re_drupal html)
            (tech_entry ''Drupal'' ''high'' None ''CMS'') detected;
          detected = push_if (str_includes html ''__svelte'' \<or> test True re_svelte html)
            (tech_entry ''Svelte'' ''medium'' None ''Framework'') detected;
          detected = push_if (test True re_jquery html)
            (tech_entry ''jQuery'' ''high'' (group 1 (regex_match True re_jquery_version html))
               ''Library'') detected;
          detected = push_if (str_includes html ''tailwind'' \<or> test False re_tailwind html)
            tailwind_entry detected;
          detected = push_if (test False re_bootstrap html \<and> \<not> str_includes html ''tailwind'')
            bootstrap_entry detected
      in detected)"

definition header_technologies :: "(string \<Rightarrow> string option) \<Rightarrow> tech list \<Rightarrow> tech list" where
  "header_technologies headers detected0 =
     (let detected = detected0;
          poweredBy = headers ''x-powered-by'';
          detected = push_if (truthy poweredBy)
            (tech_entry (or_str poweredBy []) ''high'' None ''Server'') detected;
          server = headers ''server'';
          detected = push_if (truthy server)
            (tech_entry (or_str (nth_opt (split_on CHR ''/'' (or_str server [])) 0) [])
               ''high'' (nth_opt (split_on CHR ''/'' (or_str server [])) 1) ''Web Server'')
            detected;
          detected = push_if (truthy (headers ''x-aspnet-version'')
                              \<or> truthy (headers ''x-aspnetmvc-version''))
            (tech_entry ''ASP.NET'' ''high''
               (if truthy (headers ''x-aspnet-version'') then headers ''x-aspnet-version'' else None)
               ''Framework'') detected
      in detected)"

definition detectTechStack :: "world \<Rightarrow> string \<Rightarrow> techstack_section" where
  "detectTechStack w url =
     try_catch
       (await (tech_fetch w) (\<lambda>response.
          await (resp_text response) (\<lambda>html.
            let detected = header_technologies (resp_headers response) (body_technologies html)
            in Inr \<lparr>ts_status = Completed, ts_error = None, ts_detected = Some detected,
                    ts_total_detected = Some (length detected)\<rparr>)))
       (\<lambda>error.
          \<lparr>ts_status = Failed, ts_error = Some (err_message error ''Tech detection failed''),
           ts_detected = Some [], ts_total_detected = Some 0\<rparr>)"

subsection \<open>The orchestrator, \<^verbatim>\<open>performScan\<close>\<close>

text \<open>
  The placeholders \<^verbatim>\<open>{ status: 'pending' }\<close> and
  \<^verbatim>\<open>{ error: ..., status: "failed" }\<close> of the orchestrator: a status, an error
  message, and no other field.
\<close>

definition e2e_stub :: "status \<Rightarrow> string option \<Rightarrow> e2e_section" where
  "e2e_stub st err =
     \<lparr>e2e_status = st, e2e_error = err, e2e_buttons_found = None, e2e_links_found = None,
      e2e_forms_found = None, e2e_primary_actions = None\<rparr>"

definition api_stub :: "status \<Rightarrow> string option \<Rightarrow> api_section" where
  "api_stub st err =
     \<lparr>api_status = st, api_error = err, api_endpoints_detected = None, api_endpoints = None\<rparr>"

definition security_stub :: "status \<Rightarrow> string option \<Rightarrow> security_section" where
  "security_stub st err =
     \<lparr>sec_status = st, sec_error = err, sec_issues = None, sec_checks_performed = None,
      sec_checks_passed = None, sec_https_enabled = None\<rparr>"

definition performance_stub :: "status \<Rightarrow> string option \<Rightarrow> performance_section" where
  "performance_stub st err =
     \<lparr>perf_status = st, perf_error = err, perf_score = None, perf_load_time_ms = None,
      perf_image_count = None, perf_scripts_count = None, perf_stylesheets_count = None,
      perf_compression_enabled = None, perf_caching_enabled = None,
      perf_lighthouse_scores = None, perf_core_web_vitals = None, perf_opportunities = None,
      perf_diagnostics = None, perf_source = None\<rparr>"

definition accessibility_stub :: "status \<Rightarrow> string option \<Rightarrow> accessibility_section" where
  "accessibility_stub st err =
     \<lparr>acc_status = st, acc_error = err, acc_issues = None, acc_total_issues = None,
      acc_score = None, acc_wcag_level = None\<rparr>"

definition techstack_stub :: "status \<Rightarrow> string option \<Rightarrow> techstack_section" where
  "techstack_stub st err =
     \<lparr>ts_status = st, ts_error = err, ts_detected = None, ts_total_detected = None\<rparr>"

text \<open>
  Each analyzer is an \<^verbatim>\<open>async\<close> function whose body returns from inside its own
  \<^verbatim>\<open>try\<close>/\<^verbatim>\<open>catch\<close>, so the promise the orchestrator awaits is
  fulfilled: \<open>Inr\<close> of the analyzer's result.
\<close>

definition performScan :: "world \<Rightarrow> string \<Rightarrow> pipeline_results" where
  "performScan w url =
     (let results =
            \<lparr>e2e = e2e_stub Pending None, api = api_stub Pending None,
             security = security_stub Pending None, performance = performance_stub Pending None,
             accessibility = accessibility_stub Pending None,
             techStack = techstack_stub Pending None\<rparr>;
          results = results\<lparr>e2e :=
            try_catch (Inr (performE2EScan w url))
              (\<lambda>err. e2e_stub Failed (Some ''E2E scan failed''))\<rparr>;
          results = results\<lparr>api :=
            try_catch (Inr (performAPIScan w url))
              (\<lambda>err. api_stub Failed (Some ''API scan failed''))\<rparr>;
          results = results\<lparr>security :=
            try_catch (Inr (performSecurityScan w url))
              (\<lambda>err. security_stub Failed (Some ''Security scan failed''))\<rparr>;
          results = results\<lparr>performance :=
            try_catch (Inr (performPerformanceScan w url))
              (\<lambda>err. performance_stub Failed (Some ''Performance scan failed''))\<rparr>;
          results = results\<lparr>accessibility :=
            try_catch (Inr (performAccessibilityScan w url))
              (\<lambda>err. accessibility_stub Failed (Some ''Accessibility scan failed''))\<rparr>;
          results = results\<lparr>techStack :=
            try_catch (Inr (detectTechStack w url))
              (\<lambda>err. techstack_stub Failed (Some ''Tech detection failed''))\<rparr>
      in results)"

subsection \<open>Top issues, \<^verbatim>\<open>extractTopIssues\<close>\<close>

definition sortOrder :: "string \<Rightarrow> nat option" where
  "sortOrder = map_of [(''critical'', 0), (''high'', 1), (''medium'', 2), (''low'', 3)]"

text \<open>The key of the comparator, \<^verbatim>\<open>sortOrder[a.severity] || 99\<close>.\<close>

definition sort_rank :: "top_issue \<Rightarrow> nat" where
  "sort_rank a = or_num (sortOrder (severity a)) 99"

definition security_top_issue :: "sec_issue \<Rightarrow> top_issue" where
  "security_top_issue issue =
     \<lparr>category = or_str (sec_category issue) ''Security'',
      severity = or_str (Some (sec_severity issue)) ''low'',
      description = or_str (or_opt (sec_description issue) (sec_message issue)) []\<rparr>"

definition accessibility_top_issue :: "acc_issue \<Rightarrow> top_issue" where
  "accessibility_top_issue issue =
     \<lparr>category = ''Accessibility'',
      severity = or_str (Some (acc_severity issue)) ''low'',
      description = or_str (acc_message issue) []\<rparr>"

definition performance_top_issue :: "int \<Rightarrow> top_issue" where
  "performance_top_issue score =
     \<lparr>category = ''Performance'', severity = ''high'',
      description = ''Poor performance score ('' @ show_int score @ ''/100) - site loads slowly''\<rparr>"

text \<open>
  \<^verbatim>\<open>Array.prototype.sort\<close> is stable, and the comparator is the difference of the
  keys: the result is the stable sort by the key, \<^const>\<open>sort_key\<close>.
\<close>

definition extractTopIssues :: "pipeline_results \<Rightarrow> top_issue list" where
  "extractTopIssues scanResults =
     (let issues = [];
          issues = (case sec_issues (security scanResults) of
                      None \<Rightarrow> issues
                    | Some xs \<Rightarrow> issues @ map security_top_issue xs);
          issues = (case acc_issues (accessibility scanResults) of
                      None \<Rightarrow> issues
                    | Some xs \<Rightarrow> issues @ map accessibility_top_issue xs);
          issues = (case perf_score (performance scanResults) of
                      None \<Rightarrow> issues
                    | Some score \<Rightarrow>
                        if score < 50 then issues @ [performance_top_issue score] else issues)
      in take 10 (sort_key sort_rank issues))"

subsection \<open>Overall score, \<^verbatim>\<open>calculateOverallScore\<close>\<close>

definition w_security :: rat where "w_security = 3 / 10"
definition w_performance :: rat where "w_performance = 25 / 100"
definition w_accessibility :: rat where "w_accessibility = 25 / 100"
definition w_e2e :: rat where "w_e2e = 1 / 10"
definition w_api :: rat where "w_api = 1 / 10"

definition calculateOverallScore :: "pipeline_results \<Rightarrow> int" where
  "calculateOverallScore scanResults =
     (let totalScore = (0 :: rat);
          totalWeight = (0 :: rat);
          (totalScore, totalWeight) =
            (if sec_status (security scanResults) = Completed then
               (let secScore =
                      of_int (or_num (sec_checks_passed (security scanResults)) 0)
                        / of_int (or_num (sec_checks_performed (security scanResults)) 1) * 100
                in (totalScore + secScore * w_security, totalWeight + w_security))
             else (totalScore, totalWeight));
          (totalScore, totalWeight) =
            (if perf_status (performance scanResults) = Completed then
               (totalScore + of_int (or_num (perf_score (performance scanResults)) 0) * w_performance,
                totalWeight + w_performance)
             else (totalScore, totalWeight));
          (totalScore, totalWeight) =
            (if acc_status (accessibility scanResults) = Completed then
               (totalScore + of_int (or_num (acc_score (accessibility scanResults)) 0) * w_accessibility,
                totalWeight + w_accessibility)
             else (totalScore, totalWeight));
          (totalScore, totalWeight) =
            (if e2e_status (e2e scanResults) = Completed then
               (let e2eScore = (if or_num (e2e_buttons_found (e2e scanResults)) 0 > 0 then 80 else 50)
                in (totalScore + e2eScore * w_e2e, totalWeight + w_e2e))
             else (totalScore, totalWeight));
          (totalScore, totalWeight) =
            (if api_status (api scanResults) = Completed then
               (let apiScore = 70
                in (totalScore + apiScore * w_api, totalWeight + w_api))
             else (totalScore, totalWeight))
      in if totalWeight > 0 then js_round (totalScore / totalWeight) else 0)"

subsection \<open>The row handed to the store, in \<^verbatim>\<open>processScan\<close>\<close>

record scan_update =
  scan_status :: string
  overall_score :: int
  e2e_results :: e2e_section
  api_results :: api_section
  security_results :: security_section
  performance_results :: performance_section
  accessibility_results :: accessibility_section
  tech_stack :: techstack_section
  top_issues :: "top_issue list"
  ai_summary :: "string option"
  ai_recommendations :: "string list"
  performance_score :: int
  seo_score :: int
  accessibility_issue_count :: nat
  security_checks_passed :: int
  security_checks_total :: int
  technologies :: "string list"
  exposed_endpoints :: "string list"

text \<open>
  The part of \<^verbatim>\<open>processScan\<close> from the call of \<^verbatim>\<open>performScan\<close> to the
  object given to \<^verbatim>\<open>update\<close>; the rate-limit bookkeeping before it and the write
  itself belong to the store.
\<close>

definition processScan_update :: "world \<Rightarrow> string \<Rightarrow> scan_update" where
  "processScan_update w url =
     (let scanResults = performScan w url;
          topIssues = extractTopIssues scanResults;
          overallScore = calculateOverallScore scanResults;
          (aiSummary, aiRecommendations) =
            try_catch (ai_analysis w) (\<lambda>aiError. (None, []));
          performanceScore =
            (let a = or_num (perf_score (performance scanResults)) 0 in
             if a \<noteq> 0 then a
             else or_num (case perf_lighthouse_scores (performance scanResults) of
                            None \<Rightarrow> None | Some l \<Rightarrow> lh_performance l) 0);
          seoScore =
            or_num (case perf_lighthouse_scores (performance scanResults) of
                      None \<Rightarrow> None | Some l \<Rightarrow> lh_seo l) 0;
          accessibilityIssueCount = or_num (acc_total_issues (accessibility scanResults)) 0;
          securityIssues = or_list (sec_issues (security scanResults)) [];
          securityChecksPassed = max 0 (7 - int (length securityIssues));
          technologies' = or_list (map_option (map tech_name) (ts_detected (techStack scanResults))) [];
          exposedEndpoints = or_list (map_option (map ep_path) (api_endpoints (api scanResults))) []
      in \<lparr>scan_status = ''completed'', overall_score = overallScore,
          e2e_results = e2e scanResults, api_results = api scanResults,
          security_results = security scanResults,
          performance_results = performance scanResults,
          accessibility_results = accessibility scanResults,
          tech_stack = techStack scanResults, top_issues = topIssues,
          ai_summary = aiSummary, ai_recommendations = aiRecommendations,
          performance_score = performanceScore, seo_score = seoScore,
          accessibility_issue_count = accessibilityIssueCount,
          security_checks_passed = securityChecksPassed, security_checks_total = 7,
          technologies = technologies', exposed_endpoints = exposedEndpoints\<rparr>)"

section \<open>Reference definitions and concrete scans\<close>

text \<open>A request fails for an analyzer when the fetch rejects (a timeout, a network
  error) or the body cannot be read.\<close>

definition fetch_fails :: "js_exn + response \<Rightarrow> bool" where
  "fetch_fails f =
     (case f of Inl e \<Rightarrow> True
      | Inr r \<Rightarrow> (case resp_text r of Inl e \<Rightarrow> True | Inr t \<Rightarrow> False))"

text \<open>The checklist of the security analyzer as the specification lists it: the
  condition under which each check appends its issue.\<close>

definition security_checklist :: "(string \<Rightarrow> string option) \<Rightarrow> string \<Rightarrow> (bool \<times> sec_issue) list" where
  "security_checklist headers html =
     [(\<not> truthy (headers ''strict-transport-security''), hsts_issue),
      (\<not> truthy (headers ''x-content-type-options''), nosniff_issue),
      (\<not> truthy (headers ''x-frame-options'') \<and> \<not> truthy (headers ''content-security-policy''),
         clickjacking_issue),
      (\<not> truthy (headers ''content-security-policy''), csp_issue),
      (\<not> truthy (headers ''x-xss-protection''), xss_issue),
      (match_all True re_cookie html \<noteq> [], cookie_issue)]"

text \<open>Concrete scans: a response with the given headers and body, and a world in which
  every analyzer receives the same fetch result, no page-speed key is configured and the
  runtime has no document parser.\<close>

definition page :: "(string \<times> string) list \<Rightarrow> string \<Rightarrow> js_exn + response" where
  "page hs html =
     Inr \<lparr>resp_ok = True, resp_status = 200, resp_headers = map_of hs, resp_text = Inr html\<rparr>"

definition world_of :: "js_exn + response \<Rightarrow> world" where
  "world_of f =
     \<lparr>env = (\<lambda>name. None), e2e_fetch = f,
      dom_parser = (\<lambda>html. Inl (ErrorObj ''DOMParser is not defined'')),
      api_fetch = f, sec_fetch = f, pagespeed = Inl Thrown, perf_fetch = f,
      perf_load_time = 120, acc_fetch = f, tech_fetch = f, ai_analysis = Inr (None, [])\<rparr>"

definition bare_page :: "js_exn + response" where
  "bare_page = page [] ''<html><body><p>hello</p></body></html>''"

definition timeout :: "js_exn + response" where
  "timeout = Inl (ErrorObj ''The signal has been aborted'')"

text \<open>The deductions of the accessibility score as the specification gives them, the
  sum over a list of issues, and the condition of the level \<open>Fails Level A\<close>.\<close>

definition deduction :: "string \<Rightarrow> int" where
  "deduction sev =
     (if sev = ''critical'' then 25 else if sev = ''high'' then 15
      else if sev = ''medium'' then 8 else if sev = ''low'' then 3 else 10)"

definition total_deduction :: "acc_issue list \<Rightarrow> int" where
  "total_deduction issues = sum_list (map (\<lambda>i. deduction (acc_severity i)) issues)"

definition fails_level_A :: "acc_issue list \<Rightarrow> bool" where
  "fails_level_A issues =
     (\<exists>i \<in> set issues. acc_severity i = ''critical'' \<or> acc_severity i = ''high'')"

definition one_image :: "js_exn + response" where
  "one_image = page [] ''<img>''"

text \<open>A string is trimmed when it neither starts nor ends with white space. The button
  texts of a page are the text contents of the button elements of the parsed document, or,
  where the runtime has no parser, the matched button substrings with their tags removed.\<close>

definition trimmed :: "string \<Rightarrow> bool" where
  "trimmed s = (s = [] \<or> (\<not> is_space (hd s) \<and> \<not> is_space (last s)))"

definition button_texts :: "world \<Rightarrow> string \<Rightarrow> string list" where
  "button_texts w html =
     (case dom_parser w html of
        Inr doc \<Rightarrow> map (\<lambda>b. or_str b []) (dom_buttons doc)
      | Inl e \<Rightarrow> map (remove_all False re_tag) (match_all True re_button html))"

definition go_button :: "js_exn + response" where
  "go_button = page [] ''<button> Go </button>''"

definition not_found :: "js_exn + response" where
  "not_found =
     Inr \<lparr>resp_ok = False, resp_status = 404, resp_headers = map_of [],
          resp_text = Inr ''<button>x</button>''\<rparr>"

text \<open>A slot is settled when its status is Completed or Failed. The performance analyzer
  takes the basic scan when no page-speed key is configured or the page-speed branch
  throws. \<open>security_times_out\<close> is a scan in which only the request of the security
  analyzer fails.\<close>

definition settled :: "status \<Rightarrow> bool" where
  "settled st = (st = Completed \<or> st = Failed)"

definition perf_fallback :: "world \<Rightarrow> bool" where
  "perf_fallback w = (\<not> truthy (pagespeedApiKey w) \<or> isl (pagespeed w))"

definition security_times_out :: world where
  "security_times_out = (world_of bare_page)\<lparr>sec_fetch := timeout\<rparr>"

text \<open>The deductions of the basic performance score as the specification lists them,
  and their sum for a response: \<open>compressed\<close> says that the
  \<^verbatim>\<open>content-encoding\<close> header names gzip or brotli (contains \<^verbatim>\<open>gzip\<close> or
  \<^verbatim>\<open>br\<close>), \<open>cached\<close> that a non-empty \<^verbatim>\<open>cache-control\<close> header is
  present.\<close>

definition basic_deduction :: "rat \<Rightarrow> nat \<Rightarrow> nat \<Rightarrow> nat \<Rightarrow> bool \<Rightarrow> bool \<Rightarrow> int" where
  "basic_deduction loadTime images scripts stylesheets compressed cached =
     (if loadTime > 3000 then 30 else if loadTime > 1500 then 15 else 0)
     + (if images > 20 then 10 else 0)
     + (if scripts > 15 then 10 else 0)
     + (if stylesheets > 5 then 5 else 0)
     + (if \<not> compressed then 15 else 0)
     + (if \<not> cached then 10 else 0)"

definition page_deduction :: "world \<Rightarrow> response \<Rightarrow> string \<Rightarrow> int" where
  "page_deduction w response html =
     basic_deduction (perf_load_time w)
       (length (match_all True re_img html))
       (length (match_all True re_script html))
       (length (match_all True re_stylesheet html))
       (case resp_headers response ''content-encoding'' of
          None \<Rightarrow> False
        | Some v \<Rightarrow> str_includes v ''gzip'' \<or> str_includes v ''br'')
       (truthy (resp_headers response ''cache-control''))"

text \<open>\<open>three_seconds\<close> is the scan of the page \<^verbatim>\<open><img>\<close> with a measured load time
  of exactly 3000 ms. Then two bodies for the tech-stack analyzer: \<^verbatim>\<open><div class="row flex">\<close>, in which
  both class patterns match and the word \<^verbatim>\<open>tailwind\<close> does not occur, and
  \<^verbatim>\<open><a class="btn">tailwind</a>\<close>, in which the Bootstrap pattern matches and the word
  occurs.\<close>

definition three_seconds :: world where
  "three_seconds = (world_of one_image)\<lparr>perf_load_time := 3000\<rparr>"

definition row_flex_body :: string where
  "row_flex_body = ''<div class='' @ [dquote] @ ''row flex'' @ [dquote] @ ''>''"

definition row_flex :: "js_exn + response" where
  "row_flex = page [] row_flex_body"

definition btn_tailwind_body :: string where
  "btn_tailwind_body = ''<a class='' @ [dquote] @ ''btn'' @ [dquote] @ ''>tailwind</a>''"

definition btn_tailwind :: "js_exn + response" where
  "btn_tailwind = page [] btn_tailwind_body"

text \<open>The overall score as the specification states it: the sub-scores of the analyzers
  whose status is Completed, each with its weight; their weighted mean; and the rounded
  mean, 0 when no analyzer completed. \<open>pagespeed_contract\<close> says that a performance score
  computed from the page-speed service's report lies between 0 and 100 (the service
  reports category scores between 0 and 1).\<close>

definition pagespeed_contract :: "world \<Rightarrow> bool" where
  "pagespeed_contract w =
     (case pagespeed w of
        Inl e \<Rightarrow> True
      | Inr report \<Rightarrow> 0 \<le> psi_performanceScore report \<and> psi_performanceScore report \<le> 100)"

definition completed_subscores :: "pipeline_results \<Rightarrow> (rat \<times> rat) list" where
  "completed_subscores r =
     (if sec_status (security r) = Completed
      then [(3 / 10, of_int (the (sec_checks_passed (security r)))
                      / of_int (the (sec_checks_performed (security r))) * 100)] else [])
     @ (if perf_status (performance r) = Completed
        then [(1 / 4, of_int (the (perf_score (performance r))))] else [])
     @ (if acc_status (accessibility r) = Completed
        then [(1 / 4, of_int (the (acc_score (accessibility r))))] else [])
     @ (if e2e_status (e2e r) = Completed
        then [(1 / 10, if the (e2e_buttons_found (e2e r)) > 0 then 80 else 50)] else [])
     @ (if api_status (api r) = Completed then [(1 / 10, 70)] else [])"

definition weighted_mean :: "(rat \<times> rat) list \<Rightarrow> rat" where
  "weighted_mean ps = (\<Sum>(wt, sc) \<leftarrow> ps. wt * sc) / (\<Sum>(wt, sc) \<leftarrow> ps. wt)"

definition expected_overall :: "pipeline_results \<Rightarrow> int" where
  "expected_overall r =
     (if completed_subscores r = [] then 0 else js_round (weighted_mean (completed_subscores r)))"

text \<open>\<open>header_named hs n\<close>: the header rules of the tech-stack analyzer alone list an entry
  named \<open>n\<close> (the \<^verbatim>\<open>x-powered-by\<close> value, the name part of \<^verbatim>\<open>server\<close>, or
  \<^verbatim>\<open>ASP.NET\<close>). \<open>pagespeed_only\<close> is a scan in which a page-speed key is configured, the
  service reports a performance score of 90, and every request to the target times out.\<close>

definition header_named :: "(string \<Rightarrow> string option) \<Rightarrow> string \<Rightarrow> bool" where
  "header_named hs n = (n \<in> tech_name ` set (header_technologies hs []))"

definition pagespeed_only :: world where
  "pagespeed_only =
     (world_of timeout)\<lparr>env := map_of [(''GOOGLE_PAGESPEED_API_KEY'', ''k'')],
       pagespeed := Inr \<lparr>psi_performanceScore = 90, psi_accessibilityScore = 80,
         psi_bestPracticesScore = 70, psi_seoScore = 60, psi_load_time_ms = 900,
         psi_vitals = \<lparr>cwv_fcp = 1, cwv_lcp = 2, cwv_tti = 3, cwv_tbt = 4, cwv_cls = 0,
           cwv_speedIndex = 5\<rparr>,
         psi_image_count = 0, psi_compression_enabled = True, psi_caching_enabled = True,
         psi_opportunities = [], psi_diagnostics = []\<rparr>\<rparr>"

section \<open>Verified properties\<close>

subsection \<open>Helper lemmas\<close>

lemma fetch_fails_cases:
  "fetch_fails f \<or> (\<exists>r html. f = Inr r \<and> resp_text r = Inr html)"
  by (auto simp: fetch_fails_def split: sum.splits)

lemma security_completed:
  assumes "sec_fetch w = Inr response" "resp_text response = Inr html"
  shows "performSecurityScan w url =
     \<lparr>sec_status = Completed, sec_error = None,
      sec_issues = Some (map snd (filter fst (security_checklist (resp_headers response) html))),
      sec_checks_performed = Some 7,
      sec_checks_passed =
        Some (7 - int (length (map snd (filter fst (security_checklist (resp_headers response) html))))),
      sec_https_enabled = Some (starts_with url ''https'')\<rparr>"
  using assms
  by (simp add: performSecurityScan_def try_catch_def await_def header_issues_def push_if_def
      security_checklist_def Let_def)

lemma security_failed:
  assumes "fetch_fails (sec_fetch w)"
  shows "\<exists>msg. performSecurityScan w url =
     \<lparr>sec_status = Failed, sec_error = Some msg, sec_issues = Some [],
      sec_checks_performed = Some 0, sec_checks_passed = Some 0, sec_https_enabled = Some False\<rparr>"
  using assms
  by (auto simp: performSecurityScan_def try_catch_def await_def fetch_fails_def Let_def
      split: sum.splits)

lemma checklist_length: "length (filter fst (security_checklist h html)) \<le> 6"
  by (rule order_trans[OF length_filter_le]) (simp add: security_checklist_def)

subsection \<open>The security analyzer\<close>

text \<open>
  Claim C3. A security scan that completes reports \<open>checks_performed = 7\<close> and
  \<open>checks_passed = 7 - issues.length\<close>, with at most six issues: the issues are those of
  the six checks of the checklist whose condition holds, in the order of the checklist
  (the https flag never appends one). When the request fails, the result is Failed with
  \<open>checks_performed = 0\<close> and \<open>checks_passed = 0\<close>.
\<close>

theorem security_scan_checks:
  "(sec_status (performSecurityScan w url) = Completed \<longrightarrow>
      (\<exists>issues. sec_issues (performSecurityScan w url) = Some issues
         \<and> sec_checks_performed (performSecurityScan w url) = Some 7
         \<and> sec_checks_passed (performSecurityScan w url) = Some (7 - int (length issues))
         \<and> length issues \<le> 6))
   \<and> (\<forall>response html. sec_fetch w = Inr response \<and> resp_text response = Inr html \<longrightarrow>
         sec_status (performSecurityScan w url) = Completed
         \<and> sec_issues (performSecurityScan w url)
             = Some (map snd (filter fst (security_checklist (resp_headers response) html))))
   \<and> (fetch_fails (sec_fetch w) \<longrightarrow>
         sec_status (performSecurityScan w url) = Failed
         \<and> sec_checks_performed (performSecurityScan w url) = Some 0
         \<and> sec_checks_passed (performSecurityScan w url) = Some 0)"
proof -
  have completed: "sec_status (performSecurityScan w url) = Completed \<Longrightarrow>
      \<exists>issues. sec_issues (performSecurityScan w url) = Some issues
         \<and> sec_checks_performed (performSecurityScan w url) = Some 7
         \<and> sec_checks_passed (performSecurityScan w url) = Some (7 - int (length issues))
         \<and> length issues \<le> 6"
  proof -
    assume c: "sec_status (performSecurityScan w url) = Completed"
    from fetch_fails_cases[of "sec_fetch w"] show ?thesis
    proof
      assume "fetch_fails (sec_fetch w)"
      from security_failed[OF this, of url] c show ?thesis by auto
    next
      assume "\<exists>r html. sec_fetch w = Inr r \<and> resp_text r = Inr html"
      then obtain r html where "sec_fetch w = Inr r" "resp_text r = Inr html" by blast
      from security_completed[OF this, of url] checklist_length[of "resp_headers r" html]
      show ?thesis by simp
    qed
  qed
  have ok: "\<And>response html. sec_fetch w = Inr response \<Longrightarrow> resp_text response = Inr html \<Longrightarrow>
         sec_status (performSecurityScan w url) = Completed
         \<and> sec_issues (performSecurityScan w url)
             = Some (map snd (filter fst (security_checklist (resp_headers response) html)))"
    by (simp add: security_completed)
  have failed: "fetch_fails (sec_fetch w) \<Longrightarrow>
         sec_status (performSecurityScan w url) = Failed
         \<and> sec_checks_performed (performSecurityScan w url) = Some 0
         \<and> sec_checks_passed (performSecurityScan w url) = Some 0"
    using security_failed[of w url] by auto
  from completed ok failed show ?thesis by blast
qed

lemma bare_page_security:
  "sec_status (performSecurityScan (world_of bare_page) ''https://example.com'') = Completed"
  by (simp add: world_of_def bare_page_def page_def security_completed)

theorem security_scan_checks_witness:
  "sec_status (performSecurityScan (world_of bare_page) ''https://example.com'') = Completed
   \<and> sec_checks_performed (performSecurityScan (world_of bare_page) ''https://example.com'') = Some 7
   \<and> (\<exists>issues. sec_issues (performSecurityScan (world_of bare_page) ''https://example.com'') = Some issues
        \<and> sec_checks_passed (performSecurityScan (world_of bare_page) ''https://example.com'')
            = Some (7 - int (length issues)))
   \<and> fetch_fails (sec_fetch (world_of timeout))
   \<and> sec_status (performSecurityScan (world_of timeout) ''https://example.com'') = Failed
   \<and> sec_checks_performed (performSecurityScan (world_of timeout) ''https://example.com'') = Some 0"
proof -
  have f: "fetch_fails (sec_fetch (world_of timeout))"
    by (simp add: world_of_def timeout_def fetch_fails_def)
  from security_scan_checks[of "world_of bare_page" "''https://example.com''"]
    security_scan_checks[of "world_of timeout" "''https://example.com''"]
    bare_page_security f
  show ?thesis by blast
qed

subsection \<open>The accessibility analyzer\<close>

lemma severityPoints_deduction: "or_num (severityPoints sev) 10 = deduction sev"
  by (simp add: severityPoints_def or_num_def deduction_def)

lemma foldl_plus_sum_list: "foldl (\<lambda>sum x. sum + f x) a xs = a + sum_list (map f xs)" for a :: int
  by (induction xs arbitrary: a) simp_all

lemma accessibility_completed:
  assumes "acc_fetch w = Inr response" "resp_text response = Inr html"
  shows "performAccessibilityScan w url =
     \<lparr>acc_status = Completed, acc_error = None, acc_issues = Some (accessibility_issues html),
      acc_total_issues = Some (length (accessibility_issues html)),
      acc_score = Some (max 0 (100 - total_deduction (accessibility_issues html))),
      acc_wcag_level = Some (if fails_level_A (accessibility_issues html) then ''Fails Level A''
                             else ''Passes Level A (potential AA issues)'')\<rparr>"
  using assms
  by (simp add: performAccessibilityScan_def try_catch_def await_def Let_def
      severityPoints_deduction foldl_plus_sum_list total_deduction_def fails_level_A_def list_ex_iff)

lemma accessibility_failed:
  assumes "fetch_fails (acc_fetch w)"
  shows "\<exists>msg. performAccessibilityScan w url =
     \<lparr>acc_status = Failed, acc_error = Some msg, acc_issues = Some [], acc_total_issues = Some 0,
      acc_score = Some 0, acc_wcag_level = Some ''Unable to determine''\<rparr>"
  using assms
  by (auto simp: performAccessibilityScan_def try_catch_def await_def fetch_fails_def Let_def
      split: sum.splits)

text \<open>
  Claim C5. An accessibility scan that completes has
  \<open>score = max 0 (100 - sum of the deductions of the emitted issues)\<close>, with the deductions
  critical 25, high 15, medium 8, low 3 and 10 for any other severity, and its level is
  \<open>Fails Level A\<close> exactly when an emitted issue is critical or high, and
  \<open>Passes Level A (potential AA issues)\<close> otherwise. When the request fails, the result
  is Failed with score 0 and the level \<open>Unable to determine\<close>.
\<close>

theorem accessibility_scan_score:
  "(acc_status (performAccessibilityScan w url) = Completed \<longrightarrow>
      (\<exists>issues. acc_issues (performAccessibilityScan w url) = Some issues
         \<and> acc_score (performAccessibilityScan w url) = Some (max 0 (100 - total_deduction issues))
         \<and> (acc_wcag_level (performAccessibilityScan w url) = Some ''Fails Level A''
              \<longleftrightarrow> fails_level_A issues)
         \<and> (acc_wcag_level (performAccessibilityScan w url)
               = Some ''Passes Level A (potential AA issues)''
              \<longleftrightarrow> \<not> fails_level_A issues)))
   \<and> (\<forall>response html. acc_fetch w = Inr response \<and> resp_text response = Inr html \<longrightarrow>
         acc_status (performAccessibilityScan w url) = Completed
         \<and> acc_issues (performAccessibilityScan w url) = Some (accessibility_issues html))
   \<and> (fetch_fails (acc_fetch w) \<longrightarrow>
         acc_status (performAccessibilityScan w url) = Failed
         \<and> acc_score (performAccessibilityScan w url) = Some 0
         \<and> acc_wcag_level (performAccessibilityScan w url) = Some ''Unable to determine'')"
proof (intro conjI impI allI)
  assume c: "acc_status (performAccessibilityScan w url) = Completed"
  from fetch_fails_cases[of "acc_fetch w"]
  show "\<exists>issues. acc_issues (performAccessibilityScan w url) = Some issues
         \<and> acc_score (performAccessibilityScan w url) = Some (max 0 (100 - total_deduction issues))
         \<and> (acc_wcag_level (performAccessibilityScan w url) = Some ''Fails Level A''
              \<longleftrightarrow> fails_level_A issues)
         \<and> (acc_wcag_level (performAccessibilityScan w url)
               = Some ''Passes Level A (potential AA issues)''
              \<longleftrightarrow> \<not> fails_level_A issues)"
  proof
    assume "fetch_fails (acc_fetch w)"
    from accessibility_failed[OF this, of url] c show ?thesis by auto
  next
    assume "\<exists>r html. acc_fetch w = Inr r \<and> resp_text r = Inr html"
    then obtain r html where "acc_fetch w = Inr r" "resp_text r = Inr html" by blast
    from accessibility_completed[OF this, of url] show ?thesis by simp
  qed
next
  fix response html
  assume "acc_fetch w = Inr response \<and> resp_text response = Inr html"
  then show "acc_status (performAccessibilityScan w url) = Completed"
    and "acc_issues (performAccessibilityScan w url) = Some (accessibility_issues html)"
    by (simp_all add: accessibility_completed)
next
  assume "fetch_fails (acc_fetch w)"
  from accessibility_failed[OF this, of url]
  show "acc_status (performAccessibilityScan w url) = Failed"
    and "acc_score (performAccessibilityScan w url) = Some 0"
    and "acc_wcag_level (performAccessibilityScan w url) = Some ''Unable to determine''"
    by auto
qed

lemma one_image_severities:
  "map acc_severity (accessibility_issues ''<img>'') = [''critical'', ''high'', ''low'']"
  by code_simp

theorem accessibility_scan_score_witness:
  "acc_status (performAccessibilityScan (world_of one_image) ''https://example.com'') = Completed
   \<and> acc_score (performAccessibilityScan (world_of one_image) ''https://example.com'') = Some 57
   \<and> acc_wcag_level (performAccessibilityScan (world_of one_image) ''https://example.com'')
        = Some ''Fails Level A''
   \<and> fetch_fails (acc_fetch (world_of timeout))
   \<and> acc_status (performAccessibilityScan (world_of timeout) ''https://example.com'') = Failed
   \<and> acc_score (performAccessibilityScan (world_of timeout) ''https://example.com'') = Some 0"
proof -
  have f: "fetch_fails (acc_fetch (world_of timeout))"
    by (simp add: world_of_def timeout_def fetch_fails_def)
  have a: "acc_fetch (world_of one_image)
      = Inr \<lparr>resp_ok = True, resp_status = 200, resp_headers = map_of [], resp_text = Inr ''<img>''\<rparr>"
    by (simp add: world_of_def one_image_def page_def)
  have d: "total_deduction (accessibility_issues ''<img>'') = 43"
  proof -
    have "total_deduction (accessibility_issues ''<img>'')
        = sum_list (map deduction (map acc_severity (accessibility_issues ''<img>'')))"
      by (simp add: total_deduction_def comp_def)
    also have "\<dots> = sum_list (map deduction [''critical'', ''high'', ''low''])"
      by (simp only: one_image_severities)
    also have "\<dots> = 43"
      by (simp add: deduction_def)
    finally show ?thesis .
  qed
  have l: "fails_level_A (accessibility_issues ''<img>'')"
  proof -
    have "''critical'' \<in> set (map acc_severity (accessibility_issues ''<img>''))"
      by (simp add: one_image_severities)
    then show ?thesis by (auto simp: fails_level_A_def)
  qed
  from accessibility_scan_score[of "world_of one_image" "''https://example.com''"]
    accessibility_scan_score[of "world_of timeout" "''https://example.com''"] a d l f
  show ?thesis by (auto simp: accessibility_completed[OF a])
qed

subsection \<open>The markup analyzer\<close>

lemma trimmed_trim: "trimmed (trim s)"
proof (cases "trim s = []")
  case True
  then show ?thesis by (simp add: trimmed_def)
next
  case False
  define ys where "ys = dropWhile is_space s"
  define zs where "zs = dropWhile is_space (rev ys)"
  have t: "trim s = rev zs" by (simp add: trim_def ys_def zs_def)
  with False have zs: "zs \<noteq> []" by simp
  then have ys: "ys \<noteq> []" by (auto simp: zs_def)
  have "\<not> is_space (hd zs)" using zs unfolding zs_def by (rule hd_dropWhile)
  then have l: "\<not> is_space (last (trim s))" using zs by (simp add: t last_rev)
  have "rev ys = takeWhile is_space (rev ys) @ zs" by (simp add: zs_def)
  then have "ys = rev zs @ rev (takeWhile is_space (rev ys))"
    by (metis rev_append rev_rev_ident)
  then have "hd ys = hd (rev zs)" using zs by (metis hd_append2 rev_is_Nil_conv)
  moreover have "\<not> is_space (hd ys)" using ys unfolding ys_def by (rule hd_dropWhile)
  ultimately have "\<not> is_space (hd (trim s))" by (simp add: t)
  with l show ?thesis by (simp add: trimmed_def)
qed

lemma e2e_rejected:
  assumes "fetch_fails (e2e_fetch w) \<or> (\<exists>r. e2e_fetch w = Inr r \<and> \<not> resp_ok r)"
  shows "\<exists>msg. performE2EScan w url = e2e_failed msg"
  using assms
  by (auto simp: performE2EScan_def try_catch_def await_def fetch_fails_def split: sum.splits)

lemma e2e_answered:
  assumes "e2e_fetch w = Inr r" "resp_ok r" "resp_text r = Inr html"
  shows "performE2EScan w url =
     (case dom_parser w html of Inr doc \<Rightarrow> e2e_dom doc | Inl e \<Rightarrow> e2e_regex html)"
  using assms
  by (simp add: performE2EScan_def try_catch_def await_def split: sum.splits)

lemma e2e_cases:
  "(fetch_fails (e2e_fetch w) \<or> (\<exists>r. e2e_fetch w = Inr r \<and> \<not> resp_ok r))
   \<or> (\<exists>r html. e2e_fetch w = Inr r \<and> resp_ok r \<and> resp_text r = Inr html)"
  using fetch_fails_cases[of "e2e_fetch w"] by blast

lemma e2e_actions:
  assumes "e2e_fetch w = Inr r" "resp_ok r" "resp_text r = Inr html"
  shows "e2e_status (performE2EScan w url) = Completed
     \<and> (\<exists>pa. e2e_primary_actions (performE2EScan w url) = Some pa \<and> length pa \<le> 5
           \<and> (\<forall>s \<in> set pa. s \<noteq> [] \<and> trimmed s \<and> s \<in> trim ` set (button_texts w html)))"
proof (cases "dom_parser w html")
  case (Inl e)
  then show ?thesis
    using e2e_answered[OF assms, of url]
    by (auto simp: e2e_regex_def button_texts_def Let_def trimmed_trim
        intro!: order_trans[OF length_filter_le] dest: in_set_takeD)
next
  case (Inr doc)
  then show ?thesis
    using e2e_answered[OF assms, of url]
    by (auto simp: e2e_dom_def button_texts_def Let_def trimmed_trim dest!: in_set_takeD)
qed

text \<open>
  Claim C7. When the request of the markup analyzer fails or is answered with a status
  that is not OK, the result is Failed with all three counts 0, no primary action and an
  error message; such a response is never reported as Completed. A completed result
  holds at most five primary actions, each of them non-empty, trimmed, and the trimmed
  text of a button of the page.
\<close>

theorem e2e_scan_failure_and_actions:
  "((fetch_fails (e2e_fetch w) \<or> (\<exists>r. e2e_fetch w = Inr r \<and> \<not> resp_ok r)) \<longrightarrow>
      e2e_status (performE2EScan w url) = Failed
      \<and> e2e_buttons_found (performE2EScan w url) = Some 0
      \<and> e2e_links_found (performE2EScan w url) = Some 0
      \<and> e2e_forms_found (performE2EScan w url) = Some 0
      \<and> e2e_primary_actions (performE2EScan w url) = Some []
      \<and> e2e_error (performE2EScan w url) \<noteq> None)
   \<and> (e2e_status (performE2EScan w url) = Completed \<longrightarrow>
        (\<exists>pa. e2e_primary_actions (performE2EScan w url) = Some pa \<and> length pa \<le> 5
           \<and> (\<forall>s \<in> set pa. s \<noteq> [] \<and> trimmed s)))
   \<and> (\<forall>r html. e2e_fetch w = Inr r \<and> resp_ok r \<and> resp_text r = Inr html \<longrightarrow>
        e2e_status (performE2EScan w url) = Completed
        \<and> (\<exists>pa. e2e_primary_actions (performE2EScan w url) = Some pa
              \<and> (\<forall>s \<in> set pa. s \<in> trim ` set (button_texts w html))))"
proof (intro conjI impI allI)
  assume "fetch_fails (e2e_fetch w) \<or> (\<exists>r. e2e_fetch w = Inr r \<and> \<not> resp_ok r)"
  from e2e_rejected[OF this, of url] obtain msg where m: "performE2EScan w url = e2e_failed msg"
    by blast
  show "e2e_status (performE2EScan w url) = Failed"
    and "e2e_buttons_found (performE2EScan w url) = Some 0"
    and "e2e_links_found (performE2EScan w url) = Some 0"
    and "e2e_forms_found (performE2EScan w url) = Some 0"
    and "e2e_primary_actions (performE2EScan w url) = Some []"
    and "e2e_error (performE2EScan w url) \<noteq> None"
    by (simp_all add: m e2e_failed_def)
next
  assume c: "e2e_status (performE2EScan w url) = Completed"
  from e2e_cases[of w]
  show "\<exists>pa. e2e_primary_actions (performE2EScan w url) = Some pa \<and> length pa \<le> 5
           \<and> (\<forall>s \<in> set pa. s \<noteq> [] \<and> trimmed s)"
  proof
    assume "fetch_fails (e2e_fetch w) \<or> (\<exists>r. e2e_fetch w = Inr r \<and> \<not> resp_ok r)"
    from e2e_rejected[OF this, of url] c show ?thesis by (auto simp: e2e_failed_def)
  next
    assume "\<exists>r html. e2e_fetch w = Inr r \<and> resp_ok r \<and> resp_text r = Inr html"
    then obtain r html where "e2e_fetch w = Inr r" "resp_ok r" "resp_text r = Inr html" by blast
    from e2e_actions[OF this, of url] show ?thesis by blast
  qed
next
  fix r html
  assume a: "e2e_fetch w = Inr r \<and> resp_ok r \<and> resp_text r = Inr html"
  then have "e2e_fetch w = Inr r" "resp_ok r" "resp_text r = Inr html" by simp_all
  from e2e_actions[OF this, of url]
  show "e2e_status (performE2EScan w url) = Completed"
    and "\<exists>pa. e2e_primary_actions (performE2EScan w url) = Some pa
              \<and> (\<forall>s \<in> set pa. s \<in> trim ` set (button_texts w html))"
    by blast+
qed

lemma go_button_actions:
  "e2e_primary_actions (performE2EScan (world_of go_button) ''https://example.com'') = Some [''Go'']"
  by code_simp

lemma go_button_status:
  "e2e_status (performE2EScan (world_of go_button) ''https://example.com'') = Completed"
  by (simp add: world_of_def go_button_def page_def e2e_answered e2e_regex_def Let_def)

theorem e2e_scan_failure_and_actions_witness:
  "(\<exists>r. e2e_fetch (world_of not_found) = Inr r \<and> \<not> resp_ok r)
   \<and> e2e_status (performE2EScan (world_of not_found) ''https://example.com'') = Failed
   \<and> e2e_buttons_found (performE2EScan (world_of not_found) ''https://example.com'') = Some 0
   \<and> e2e_primary_actions (performE2EScan (world_of not_found) ''https://example.com'') = Some []
   \<and> e2e_status (performE2EScan (world_of go_button) ''https://example.com'') = Completed
   \<and> e2e_primary_actions (performE2EScan (world_of go_button) ''https://example.com'') = Some [''Go'']
   \<and> trimmed ''Go''"
proof -
  have n: "\<exists>r. e2e_fetch (world_of not_found) = Inr r \<and> \<not> resp_ok r"
    by (simp add: world_of_def not_found_def)
  from e2e_scan_failure_and_actions[of "world_of not_found" "''https://example.com''"] n
  have "e2e_status (performE2EScan (world_of not_found) ''https://example.com'') = Failed
     \<and> e2e_buttons_found (performE2EScan (world_of not_found) ''https://example.com'') = Some 0
     \<and> e2e_primary_actions (performE2EScan (world_of not_found) ''https://example.com'') = Some []"
    by blast
  moreover from e2e_scan_failure_and_actions[of "world_of go_button" "''https://example.com''"]
    go_button_status go_button_actions
  have "trimmed ''Go''" by auto
  ultimately show ?thesis using n go_button_status go_button_actions by blast
qed

subsection \<open>The flattened security fields of the stored row\<close>

lemma performScan_slots:
  "e2e (performScan w url) = performE2EScan w url"
  "api (performScan w url) = performAPIScan w url"
  "security (performScan w url) = performSecurityScan w url"
  "performance (performScan w url) = performPerformanceScan w url"
  "accessibility (performScan w url) = performAccessibilityScan w url"
  "techStack (performScan w url) = detectTechStack w url"
  by (simp_all add: performScan_def try_catch_def Let_def)

lemma security_failed_iff:
  "sec_status (performSecurityScan w url) = Failed \<longleftrightarrow> fetch_fails (sec_fetch w)"
proof
  assume f: "sec_status (performSecurityScan w url) = Failed"
  show "fetch_fails (sec_fetch w)"
  proof (rule ccontr)
    assume "\<not> fetch_fails (sec_fetch w)"
    with fetch_fails_cases[of "sec_fetch w"]
    obtain r html where "sec_fetch w = Inr r" "resp_text r = Inr html" by blast
    from security_completed[OF this, of url] f show False by simp
  qed
next
  assume "fetch_fails (sec_fetch w)"
  from security_failed[OF this, of url] show "sec_status (performSecurityScan w url) = Failed"
    by auto
qed

text \<open>
  Claim C9. When the security analyzer returns Failed, the row handed to the store
  carries \<open>security_checks_passed = 7\<close> and \<open>security_checks_total = 7\<close> (the
  value is recomputed as \<open>max 0 (7 - issues.length)\<close> from the empty list of issues),
  while the security slot of the same row records \<open>checks_performed = 0\<close> and
  \<open>checks_passed = 0\<close>.
\<close>

theorem failed_security_reports_seven_passed:
  assumes "sec_status (security (performScan w url)) = Failed"
  shows "security_checks_passed (processScan_update w url) = 7
     \<and> security_checks_total (processScan_update w url) = 7
     \<and> sec_issues (security_results (processScan_update w url)) = Some []
     \<and> sec_checks_performed (security_results (processScan_update w url)) = Some 0
     \<and> sec_checks_passed (security_results (processScan_update w url)) = Some 0"
proof -
  from assms have "fetch_fails (sec_fetch w)"
    by (simp add: performScan_slots security_failed_iff)
  from security_failed[OF this, of url] obtain msg where
    m: "performSecurityScan w url =
      \<lparr>sec_status = Failed, sec_error = Some msg, sec_issues = Some [],
       sec_checks_performed = Some 0, sec_checks_passed = Some 0, sec_https_enabled = Some False\<rparr>"
    by blast
  show ?thesis
    by (simp add: processScan_update_def Let_def performScan_slots m or_list_def split: prod.splits)
qed

theorem failed_security_reports_seven_passed_witness:
  "sec_status (security (performScan (world_of timeout) ''https://example.com'')) = Failed
   \<and> security_checks_passed (processScan_update (world_of timeout) ''https://example.com'') = 7
   \<and> security_checks_total (processScan_update (world_of timeout) ''https://example.com'') = 7
   \<and> sec_checks_passed (security_results (processScan_update (world_of timeout) ''https://example.com''))
        = Some 0"
proof -
  have "fetch_fails (sec_fetch (world_of timeout))"
    by (simp add: world_of_def timeout_def fetch_fails_def)
  then have f: "sec_status (security (performScan (world_of timeout) ''https://example.com'')) = Failed"
    by (simp add: performScan_slots security_failed_iff)
  from failed_security_reports_seven_passed[OF f] f show ?thesis by simp
qed

subsection \<open>The orchestrator: failures stay in their slot\<close>

lemma api_status_cases:
  "api_status (performAPIScan w url) = (if fetch_fails (api_fetch w) then Failed else Completed)"
  by (auto simp: performAPIScan_def try_catch_def await_def fetch_fails_def Let_def split: sum.splits)

lemma ts_status_cases:
  "ts_status (detectTechStack w url) = (if fetch_fails (tech_fetch w) then Failed else Completed)"
  by (auto simp: detectTechStack_def try_catch_def await_def fetch_fails_def Let_def split: sum.splits)

lemma sec_status_cases:
  "sec_status (performSecurityScan w url) = (if fetch_fails (sec_fetch w) then Failed else Completed)"
  by (auto simp: performSecurityScan_def try_catch_def await_def fetch_fails_def Let_def split: sum.splits)

lemma acc_status_cases:
  "acc_status (performAccessibilityScan w url) = (if fetch_fails (acc_fetch w) then Failed else Completed)"
  by (auto simp: performAccessibilityScan_def try_catch_def await_def fetch_fails_def Let_def split: sum.splits)

lemma e2e_status_cases:
  "e2e_status (performE2EScan w url)
     = (if fetch_fails (e2e_fetch w) \<or> (\<exists>r. e2e_fetch w = Inr r \<and> \<not> resp_ok r) then Failed else Completed)"
  by (auto simp: performE2EScan_def try_catch_def await_def fetch_fails_def e2e_failed_def
      e2e_dom_def e2e_regex_def Let_def split: sum.splits)

lemma basic_completed:
  assumes "perf_fetch w = Inr response" "resp_text response = Inr html"
  shows "performBasicPerformanceScan w url =
     Inr \<lparr>perf_status = Completed, perf_error = None,
          perf_score = Some (basic_score (perf_load_time w)
             (length (match_all True re_img html)) (length (match_all True re_script html))
             (length (match_all True re_stylesheet html))
             (map_option (\<lambda>v. str_includes v ''gzip'' \<or> str_includes v ''br'')
                (resp_headers response ''content-encoding''))
             (truthy (resp_headers response ''cache-control''))),
          perf_load_time_ms = Some (js_round (perf_load_time w)),
          perf_image_count = Some (length (match_all True re_img html)),
          perf_scripts_count = Some (length (match_all True re_script html)),
          perf_stylesheets_count = Some (length (match_all True re_stylesheet html)),
          perf_compression_enabled =
            map_option (\<lambda>v. str_includes v ''gzip'' \<or> str_includes v ''br'')
              (resp_headers response ''content-encoding''),
          perf_caching_enabled = Some (truthy (resp_headers response ''cache-control'')),
          perf_lighthouse_scores =
            Some \<lparr>lh_performance = Some (basic_score (perf_load_time w)
                     (length (match_all True re_img html)) (length (match_all True re_script html))
                     (length (match_all True re_stylesheet html))
                     (map_option (\<lambda>v. str_includes v ''gzip'' \<or> str_includes v ''br'')
                        (resp_headers response ''content-encoding''))
                     (truthy (resp_headers response ''cache-control''))),
                  lh_seo = Some (max 0 (basic_score (perf_load_time w)
                     (length (match_all True re_img html)) (length (match_all True re_script html))
                     (length (match_all True re_stylesheet html))
                     (map_option (\<lambda>v. str_includes v ''gzip'' \<or> str_includes v ''br'')
                        (resp_headers response ''content-encoding''))
                     (truthy (resp_headers response ''cache-control'')) - 10)),
                  lh_accessibility = None, lh_bestPractices = None\<rparr>,
          perf_core_web_vitals = None, perf_opportunities = None, perf_diagnostics = None,
          perf_source = Some ''basic-scan''\<rparr>"
  using assms
  by (simp add: performBasicPerformanceScan_def await_def Let_def map_option_case)

lemma basic_rejected:
  assumes "fetch_fails (perf_fetch w)"
  shows "\<exists>e. performBasicPerformanceScan w url = Inl e"
  using assms
  by (auto simp: performBasicPerformanceScan_def await_def fetch_fails_def Let_def split: sum.splits)

lemma perf_status_cases:
  "perf_status (performPerformanceScan w url)
     = (if perf_fallback w \<and> fetch_fails (perf_fetch w) then Failed else Completed)"
proof (cases "fetch_fails (perf_fetch w)")
  case True
  from basic_rejected[OF True, of url] obtain e where "performBasicPerformanceScan w url = Inl e"
    by blast
  with True show ?thesis
    by (cases "pagespeed w")
      (simp_all add: performPerformanceScan_def performGooglePageSpeedScan_def try_catch_def
        perf_fallback_def)
next
  case False
  with fetch_fails_cases[of "perf_fetch w"]
  obtain r html where "perf_fetch w = Inr r" "resp_text r = Inr html" by blast
  from basic_completed[OF this, of url] False show ?thesis
    by (cases "pagespeed w")
      (simp_all add: performPerformanceScan_def performGooglePageSpeedScan_def try_catch_def
        perf_fallback_def)
qed

lemma e2e_own_inputs:
  fixes w w' :: world
  assumes "e2e_fetch w' = e2e_fetch w" "dom_parser w' = dom_parser w"
  shows "performE2EScan w' url = performE2EScan w url"
  unfolding performE2EScan_def by (simp only: assms)

lemma api_own_inputs:
  fixes w w' :: world
  assumes "api_fetch w' = api_fetch w"
  shows "performAPIScan w' url = performAPIScan w url"
  unfolding performAPIScan_def by (simp only: assms)

lemma security_own_inputs:
  fixes w w' :: world
  assumes "sec_fetch w' = sec_fetch w"
  shows "performSecurityScan w' url = performSecurityScan w url"
  unfolding performSecurityScan_def by (simp only: assms)

lemma performance_own_inputs:
  fixes w w' :: world
  assumes "env w' = env w" "pagespeed w' = pagespeed w" "perf_fetch w' = perf_fetch w"
    "perf_load_time w' = perf_load_time w"
  shows "performPerformanceScan w' url = performPerformanceScan w url"
  unfolding performPerformanceScan_def performGooglePageSpeedScan_def
    performBasicPerformanceScan_def pagespeedApiKey_def
  by (simp only: assms)

lemma accessibility_own_inputs:
  fixes w w' :: world
  assumes "acc_fetch w' = acc_fetch w"
  shows "performAccessibilityScan w' url = performAccessibilityScan w url"
  unfolding performAccessibilityScan_def by (simp only: assms)

lemma techstack_own_inputs:
  fixes w w' :: world
  assumes "tech_fetch w' = tech_fetch w"
  shows "detectTechStack w' url = detectTechStack w url"
  unfolding detectTechStack_def by (simp only: assms)

text \<open>
  Claim C4. \<^verbatim>\<open>performScan\<close> always returns the record of six slots, and after the
  run each slot is Completed or Failed, also when every analyzer failed. A rejected
  request (or body read) of one analyzer makes that analyzer's slot Failed (for the
  performance analyzer: when the basic scan is the one that runs), and every slot is
  determined by its own analyzer's inputs alone, so a failure in one analyzer changes no
  other slot.
\<close>

theorem scan_failure_isolation:
  "(settled (e2e_status (e2e (performScan w url)))
    \<and> settled (api_status (api (performScan w url)))
    \<and> settled (sec_status (security (performScan w url)))
    \<and> settled (perf_status (performance (performScan w url)))
    \<and> settled (acc_status (accessibility (performScan w url)))
    \<and> settled (ts_status (techStack (performScan w url))))
   \<and> ((fetch_fails (e2e_fetch w) \<longrightarrow> e2e_status (e2e (performScan w url)) = Failed)
      \<and> (fetch_fails (api_fetch w) \<longrightarrow> api_status (api (performScan w url)) = Failed)
      \<and> (fetch_fails (sec_fetch w) \<longrightarrow> sec_status (security (performScan w url)) = Failed)
      \<and> (perf_fallback w \<and> fetch_fails (perf_fetch w) \<longrightarrow>
            perf_status (performance (performScan w url)) = Failed)
      \<and> (fetch_fails (acc_fetch w) \<longrightarrow> acc_status (accessibility (performScan w url)) = Failed)
      \<and> (fetch_fails (tech_fetch w) \<longrightarrow> ts_status (techStack (performScan w url)) = Failed))
   \<and> (\<forall>w'.
        (e2e_fetch w' = e2e_fetch w \<and> dom_parser w' = dom_parser w \<longrightarrow>
           e2e (performScan w' url) = e2e (performScan w url))
      \<and> (api_fetch w' = api_fetch w \<longrightarrow> api (performScan w' url) = api (performScan w url))
      \<and> (sec_fetch w' = sec_fetch w \<longrightarrow>
           security (performScan w' url) = security (performScan w url))
      \<and> (env w' = env w \<and> pagespeed w' = pagespeed w \<and> perf_fetch w' = perf_fetch w
           \<and> perf_load_time w' = perf_load_time w \<longrightarrow>
           performance (performScan w' url) = performance (performScan w url))
      \<and> (acc_fetch w' = acc_fetch w \<longrightarrow>
           accessibility (performScan w' url) = accessibility (performScan w url))
      \<and> (tech_fetch w' = tech_fetch w \<longrightarrow>
           techStack (performScan w' url) = techStack (performScan w url)))"
proof (intro conjI allI impI)
  show "settled (e2e_status (e2e (performScan w url)))"
    by (simp add: performScan_slots e2e_status_cases settled_def)
  show "settled (api_status (api (performScan w url)))"
    by (simp add: performScan_slots api_status_cases settled_def)
  show "settled (sec_status (security (performScan w url)))"
    by (simp add: performScan_slots sec_status_cases settled_def)
  show "settled (perf_status (performance (performScan w url)))"
    by (simp add: performScan_slots perf_status_cases settled_def)
  show "settled (acc_status (accessibility (performScan w url)))"
    by (simp add: performScan_slots acc_status_cases settled_def)
  show "settled (ts_status (techStack (performScan w url)))"
    by (simp add: performScan_slots ts_status_cases settled_def)
next
  assume "fetch_fails (e2e_fetch w)"
  then show "e2e_status (e2e (performScan w url)) = Failed"
    by (simp add: performScan_slots e2e_status_cases)
next
  assume "fetch_fails (api_fetch w)"
  then show "api_status (api (performScan w url)) = Failed"
    by (simp add: performScan_slots api_status_cases)
next
  assume "fetch_fails (sec_fetch w)"
  then show "sec_status (security (performScan w url)) = Failed"
    by (simp add: performScan_slots sec_status_cases)
next
  assume "perf_fallback w \<and> fetch_fails (perf_fetch w)"
  then show "perf_status (performance (performScan w url)) = Failed"
    by (simp add: performScan_slots perf_status_cases)
next
  assume "fetch_fails (acc_fetch w)"
  then show "acc_status (accessibility (performScan w url)) = Failed"
    by (simp add: performScan_slots acc_status_cases)
next
  assume "fetch_fails (tech_fetch w)"
  then show "ts_status (techStack (performScan w url)) = Failed"
    by (simp add: performScan_slots ts_status_cases)
next
  fix w' :: world assume "e2e_fetch w' = e2e_fetch w \<and> dom_parser w' = dom_parser w"
  then show "e2e (performScan w' url) = e2e (performScan w url)"
    unfolding performScan_slots by (intro e2e_own_inputs) simp_all
next
  fix w' :: world assume "api_fetch w' = api_fetch w"
  then show "api (performScan w' url) = api (performScan w url)"
    unfolding performScan_slots by (intro api_own_inputs) simp_all
next
  fix w' :: world assume "sec_fetch w' = sec_fetch w"
  then show "security (performScan w' url) = security (performScan w url)"
    unfolding performScan_slots by (intro security_own_inputs) simp_all
next
  fix w' :: world assume "env w' = env w \<and> pagespeed w' = pagespeed w \<and> perf_fetch w' = perf_fetch w
           \<and> perf_load_time w' = perf_load_time w"
  then show "performance (performScan w' url) = performance (performScan w url)"
    unfolding performScan_slots by (intro performance_own_inputs) simp_all
next
  fix w' :: world assume "acc_fetch w' = acc_fetch w"
  then show "accessibility (performScan w' url) = accessibility (performScan w url)"
    unfolding performScan_slots by (intro accessibility_own_inputs) simp_all
next
  fix w' :: world assume "tech_fetch w' = tech_fetch w"
  then show "techStack (performScan w' url) = techStack (performScan w url)"
    unfolding performScan_slots by (intro techstack_own_inputs) simp_all
qed

lemma bare_page_ok: "\<not> fetch_fails bare_page"
  by (simp add: bare_page_def page_def fetch_fails_def)

lemma timeout_fails: "fetch_fails timeout"
  by (simp add: timeout_def fetch_fails_def)

theorem scan_failure_isolation_witness:
  "fetch_fails (sec_fetch security_times_out)
   \<and> sec_status (security (performScan security_times_out ''https://example.com'')) = Failed
   \<and> e2e (performScan security_times_out ''https://example.com'')
       = e2e (performScan (world_of bare_page) ''https://example.com'')
   \<and> accessibility (performScan security_times_out ''https://example.com'')
       = accessibility (performScan (world_of bare_page) ''https://example.com'')
   \<and> acc_status (accessibility (performScan security_times_out ''https://example.com'')) = Completed
   \<and> settled (ts_status (techStack (performScan (world_of timeout) ''https://example.com'')))
   \<and> perf_status (performance (performScan (world_of timeout) ''https://example.com'')) = Failed"
proof -
  note t = scan_failure_isolation[of "world_of bare_page" "''https://example.com''"]
  note u = scan_failure_isolation[of security_times_out "''https://example.com''"]
  note v = scan_failure_isolation[of "world_of timeout" "''https://example.com''"]
  have f: "fetch_fails (sec_fetch security_times_out)"
    by (simp add: security_times_out_def timeout_fails)
  have s: "sec_status (security (performScan security_times_out ''https://example.com'')) = Failed"
    using u f by blast
  have e: "e2e (performScan security_times_out ''https://example.com'')
       = e2e (performScan (world_of bare_page) ''https://example.com'')"
  proof -
    have "e2e_fetch security_times_out = e2e_fetch (world_of bare_page)
        \<and> dom_parser security_times_out = dom_parser (world_of bare_page)"
      by (simp add: security_times_out_def)
    with t show ?thesis by blast
  qed
  have a: "accessibility (performScan security_times_out ''https://example.com'')
       = accessibility (performScan (world_of bare_page) ''https://example.com'')"
  proof -
    have "acc_fetch security_times_out = acc_fetch (world_of bare_page)"
      by (simp add: security_times_out_def)
    with t show ?thesis by blast
  qed
  have c: "acc_status (accessibility (performScan security_times_out ''https://example.com'')) = Completed"
    by (simp add: performScan_slots acc_status_cases security_times_out_def world_of_def bare_page_ok)
  have p: "perf_status (performance (performScan (world_of timeout) ''https://example.com'')) = Failed"
  proof -
    have "perf_fallback (world_of timeout) \<and> fetch_fails (perf_fetch (world_of timeout))"
      by (simp add: perf_fallback_def world_of_def timeout_fails pagespeedApiKey_def or_opt_def truthy_def)
    with v show ?thesis by blast
  qed
  from v have "settled (ts_status (techStack (performScan (world_of timeout) ''https://example.com'')))"
    by blast
  with f s e a c p show ?thesis by blast
qed

subsection \<open>The performance analyzer: the basic fallback\<close>

lemma basic_score_deduction:
  "basic_score l i s c g h = max 0 (100 - basic_deduction l i s c (g = Some True) h)"
  by (simp add: basic_score_def basic_deduction_def Let_def)

lemma basic_deduction_nonneg: "0 \<le> basic_deduction l i s c g h"
  by (simp add: basic_deduction_def)

lemma basic_score_page:
  "basic_score l i s c (map_option f h) k
     = max 0 (100 - basic_deduction l i s c (case h of None \<Rightarrow> False | Some v \<Rightarrow> f v) k)"
  by (cases h) (simp_all add: basic_score_deduction)

lemma fallback_basic:
  assumes "perf_fallback w"
  shows "performPerformanceScan w url =
     try_catch (performBasicPerformanceScan w url)
       (\<lambda>error.
          \<lparr>perf_status = Failed,
           perf_error = Some (err_message error ''Performance scan failed''),
           perf_score = Some 0, perf_load_time_ms = Some 0, perf_image_count = None,
           perf_scripts_count = None, perf_stylesheets_count = None,
           perf_compression_enabled = None, perf_caching_enabled = None,
           perf_lighthouse_scores = None, perf_core_web_vitals = None,
           perf_opportunities = None, perf_diagnostics = None, perf_source = None\<rparr>)"
  using assms
  by (cases "pagespeed w")
    (auto simp: perf_fallback_def performPerformanceScan_def performGooglePageSpeedScan_def)

text \<open>
  Claim C6, amended. When no page-speed key is configured, or the page-speed branch
  throws, and the basic scan's own request and body read succeed, the performance
  analyzer completes with source \<open>basic-scan\<close>, score \<open>max 0 (100 - d)\<close> for the sum
  \<open>d\<close> of the listed deductions, and lighthouse scores
  \<open>{performance: score, seo: max 0 (score - 10)}\<close>. When that request fails instead, the
  result is Failed with score 0, load time 0 and no source.
\<close>

theorem basic_fallback_score:
  "(perf_fallback w \<and> perf_fetch w = Inr response \<and> resp_text response = Inr html \<longrightarrow>
      perf_status (performPerformanceScan w url) = Completed
      \<and> perf_source (performPerformanceScan w url) = Some ''basic-scan''
      \<and> perf_score (performPerformanceScan w url)
          = Some (max 0 (100 - page_deduction w response html))
      \<and> perf_lighthouse_scores (performPerformanceScan w url)
          = Some \<lparr>lh_performance = Some (max 0 (100 - page_deduction w response html)),
                  lh_seo = Some (max 0 (max 0 (100 - page_deduction w response html) - 10)),
                  lh_accessibility = None, lh_bestPractices = None\<rparr>)
   \<and> (perf_fallback w \<and> fetch_fails (perf_fetch w) \<longrightarrow>
        perf_status (performPerformanceScan w url) = Failed
        \<and> perf_score (performPerformanceScan w url) = Some 0
        \<and> perf_load_time_ms (performPerformanceScan w url) = Some 0
        \<and> perf_source (performPerformanceScan w url) = None)"
proof (intro conjI impI)
  assume a: "perf_fallback w \<and> perf_fetch w = Inr response \<and> resp_text response = Inr html"
  then have f: "perf_fetch w = Inr response" "resp_text response = Inr html" by simp_all
  have p: "performPerformanceScan w url = projr (performBasicPerformanceScan w url)"
    using a by (simp add: fallback_basic basic_completed[OF f] try_catch_def)
  show "perf_status (performPerformanceScan w url) = Completed"
    and "perf_source (performPerformanceScan w url) = Some ''basic-scan''"
    and "perf_score (performPerformanceScan w url)
          = Some (max 0 (100 - page_deduction w response html))"
    and "perf_lighthouse_scores (performPerformanceScan w url)
          = Some \<lparr>lh_performance = Some (max 0 (100 - page_deduction w response html)),
                  lh_seo = Some (max 0 (max 0 (100 - page_deduction w response html) - 10)),
                  lh_accessibility = None, lh_bestPractices = None\<rparr>"
    by (simp_all add: p basic_completed[OF f] basic_score_page page_deduction_def)
next
  assume a: "perf_fallback w \<and> fetch_fails (perf_fetch w)"
  then obtain e where "performBasicPerformanceScan w url = Inl e"
    using basic_rejected[of w url] by blast
  with a show "perf_status (performPerformanceScan w url) = Failed"
    and "perf_score (performPerformanceScan w url) = Some 0"
    and "perf_load_time_ms (performPerformanceScan w url) = Some 0"
    and "perf_source (performPerformanceScan w url) = None"
    by (simp_all add: fallback_basic try_catch_def)
qed

lemma no_key: "perf_fallback (world_of f)"
  by (simp add: perf_fallback_def world_of_def pagespeedApiKey_def or_opt_def truthy_def)

text \<open>
  The claim as stated (the analyzer completes whenever no key is configured) fails when
  the request of the basic scan times out.
\<close>

theorem basic_fallback_counterexample:
  "perf_fallback (world_of timeout)
   \<and> perf_status (performPerformanceScan (world_of timeout) ''https://example.com'') = Failed
   \<and> perf_source (performPerformanceScan (world_of timeout) ''https://example.com'') = None
   \<and> perf_score (performPerformanceScan (world_of timeout) ''https://example.com'') = Some 0"
proof -
  have "fetch_fails (perf_fetch (world_of timeout))"
    by (simp add: world_of_def timeout_fails)
  then obtain e where "performBasicPerformanceScan (world_of timeout) ''https://example.com'' = Inl e"
    using basic_rejected by blast
  then show ?thesis
    by (simp add: no_key fallback_basic try_catch_def)
qed

lemma one_image_counts:
  "length (match_all True re_img ''<img>'') = 1"
  "length (match_all True re_script ''<img>'') = 0"
  "length (match_all True re_stylesheet ''<img>'') = 0"
  by code_simp+

theorem basic_fallback_score_witness:
  "perf_fallback (world_of one_image)
   \<and> perf_status (performPerformanceScan (world_of one_image) ''https://example.com'') = Completed
   \<and> perf_source (performPerformanceScan (world_of one_image) ''https://example.com'') = Some ''basic-scan''
   \<and> perf_score (performPerformanceScan (world_of one_image) ''https://example.com'') = Some 75
   \<and> perf_fallback three_seconds
   \<and> perf_score (performPerformanceScan three_seconds ''https://example.com'') = Some 60
   \<and> perf_fallback (world_of timeout) \<and> fetch_fails (perf_fetch (world_of timeout))
   \<and> perf_source (performPerformanceScan (world_of timeout) ''https://example.com'') = None"
proof -
  define r where "r = \<lparr>resp_ok = True, resp_status = 200, resp_headers = map_of ([] :: (string \<times> string) list),
                        resp_text = Inr ''<img>''\<rparr>"
  have f: "perf_fetch (world_of one_image) = Inr r" "resp_text r = Inr ''<img>''"
    by (simp_all add: world_of_def one_image_def page_def r_def)
  have f3: "perf_fetch three_seconds = Inr r"
    by (simp add: three_seconds_def world_of_def one_image_def page_def r_def)
  have k3: "perf_fallback three_seconds"
    by (simp add: three_seconds_def perf_fallback_def world_of_def pagespeedApiKey_def or_opt_def
        truthy_def)
  have d: "page_deduction (world_of one_image) r ''<img>'' = 25"
    by (simp add: page_deduction_def basic_deduction_def one_image_counts world_of_def r_def truthy_def)
  have d3: "page_deduction three_seconds r ''<img>'' = 40"
    by (simp add: page_deduction_def basic_deduction_def one_image_counts three_seconds_def
        world_of_def r_def truthy_def)
  have t: "fetch_fails (perf_fetch (world_of timeout))"
    by (simp add: world_of_def timeout_fails)
  from basic_fallback_score[of "world_of one_image" r "''<img>''" "''https://example.com''"]
    basic_fallback_score[of three_seconds r "''<img>''" "''https://example.com''"]
    basic_fallback_score[of "world_of timeout" r "''<img>''" "''https://example.com''"]
    f f3 k3 d d3 t no_key[of one_image] no_key[of timeout]
  show ?thesis by simp
qed

subsection \<open>The tech-stack analyzer: Tailwind CSS and Bootstrap\<close>

lemma in_set_push_if: "y \<in> set (push_if c x xs) \<longleftrightarrow> y \<in> set xs \<or> (c \<and> y = x)"
  by (auto simp: push_if_def)

lemma tailwind_in_body:
  "tailwind_entry \<in> set (body_technologies html)
     \<longleftrightarrow> str_includes html ''tailwind'' \<or> test False re_tailwind html"
  unfolding body_technologies_def Let_def in_set_push_if
  by (simp add: tailwind_entry_def bootstrap_entry_def tech_entry_def)

lemma bootstrap_in_body:
  "bootstrap_entry \<in> set (body_technologies html)
     \<longleftrightarrow> test False re_bootstrap html \<and> \<not> str_includes html ''tailwind''"
  unfolding body_technologies_def Let_def in_set_push_if
  by (simp add: tailwind_entry_def bootstrap_entry_def tech_entry_def)

lemma css_in_headers:
  "tailwind_entry \<in> set (header_technologies hs detected) \<longleftrightarrow> tailwind_entry \<in> set detected"
  "bootstrap_entry \<in> set (header_technologies hs detected) \<longleftrightarrow> bootstrap_entry \<in> set detected"
  unfolding header_technologies_def Let_def in_set_push_if
  by (simp_all add: tailwind_entry_def bootstrap_entry_def tech_entry_def)

lemma techstack_completed:
  assumes "tech_fetch w = Inr response" "resp_text response = Inr html"
  shows "detectTechStack w url =
     \<lparr>ts_status = Completed, ts_error = None,
      ts_detected = Some (header_technologies (resp_headers response) (body_technologies html)),
      ts_total_detected =
        Some (length (header_technologies (resp_headers response) (body_technologies html)))\<rparr>"
  using assms by (simp add: detectTechStack_def try_catch_def await_def Let_def)

lemma name_in_push_if:
  "n \<in> tech_name ` set (push_if c x xs) \<longleftrightarrow> n \<in> tech_name ` set xs \<or> (c \<and> n = tech_name x)"
  by (auto simp: push_if_def)

lemma bootstrap_name_in_body:
  "''Bootstrap'' \<in> tech_name ` set (body_technologies html)
     \<longleftrightarrow> test False re_bootstrap html \<and> \<not> str_includes html ''tailwind''"
  unfolding body_technologies_def Let_def name_in_push_if
  by (auto simp: tailwind_entry_def bootstrap_entry_def tech_entry_def)

lemma name_in_headers:
  "n \<in> tech_name ` set (header_technologies hs detected)
     \<longleftrightarrow> n \<in> tech_name ` set detected \<or> header_named hs n"
  unfolding header_named_def header_technologies_def Let_def name_in_push_if
  by auto

text \<open>
  Claim C8, amended. When the tech-stack analyzer completes, the Tailwind CSS entry is
  listed exactly when the body contains the string \<open>tailwind\<close> or the Tailwind class
  pattern matches, and the Bootstrap entry is listed exactly when the Bootstrap class
  pattern matches and the body does not contain the string \<open>tailwind\<close>. So for every
  body that contains the string \<open>tailwind\<close> the list holds Tailwind CSS and not the
  Bootstrap entry, and no entry named Bootstrap at all unless a response header names
  one; the class pattern of Tailwind alone does not exclude Bootstrap.
\<close>

theorem tailwind_excludes_bootstrap:
  assumes "tech_fetch w = Inr response" "resp_text response = Inr html"
  shows "ts_status (detectTechStack w url) = Completed
     \<and> (\<exists>detected. ts_detected (detectTechStack w url) = Some detected
          \<and> (tailwind_entry \<in> set detected
                \<longleftrightarrow> str_includes html ''tailwind'' \<or> test False re_tailwind html)
          \<and> (bootstrap_entry \<in> set detected
                \<longleftrightarrow> test False re_bootstrap html \<and> \<not> str_includes html ''tailwind'')
          \<and> (''Bootstrap'' \<in> tech_name ` set detected
                \<longleftrightarrow> (test False re_bootstrap html \<and> \<not> str_includes html ''tailwind'')
                     \<or> header_named (resp_headers response) ''Bootstrap'')
          \<and> (str_includes html ''tailwind'' \<longrightarrow>
                tailwind_entry \<in> set detected \<and> bootstrap_entry \<notin> set detected
                \<and> (\<not> header_named (resp_headers response) ''Bootstrap''
                     \<longrightarrow> ''Bootstrap'' \<notin> tech_name ` set detected)))"
  by (simp add: techstack_completed[OF assms] css_in_headers tailwind_in_body bootstrap_in_body
      name_in_headers bootstrap_name_in_body)

text \<open>
  The claim as stated fails for the body \<^verbatim>\<open><div class="row flex">\<close>: both class
  patterns match, and the list holds Tailwind CSS and Bootstrap.
\<close>

lemma row_flex_detected:
  "ts_detected (detectTechStack (world_of row_flex) ''https://example.com'')
     = Some [tailwind_entry, bootstrap_entry]"
  by code_simp

lemma row_flex_patterns:
  "test False re_tailwind row_flex_body" "test False re_bootstrap row_flex_body"
  by code_simp+

theorem tailwind_bootstrap_counterexample:
  "test False re_tailwind row_flex_body
   \<and> test False re_bootstrap row_flex_body
   \<and> tech_fetch (world_of row_flex) = page [] row_flex_body
   \<and> ts_status (detectTechStack (world_of row_flex) ''https://example.com'') = Completed
   \<and> ts_detected (detectTechStack (world_of row_flex) ''https://example.com'')
       = Some [tailwind_entry, bootstrap_entry]
   \<and> tech_name bootstrap_entry = ''Bootstrap''"
proof -
  have f: "tech_fetch (world_of row_flex) = page [] row_flex_body"
    by (simp add: world_of_def row_flex_def)
  have c: "ts_status (detectTechStack (world_of row_flex) ''https://example.com'') = Completed"
    by (simp add: ts_status_cases f page_def fetch_fails_def)
  have n: "tech_name bootstrap_entry = ''Bootstrap''"
    by (simp add: bootstrap_entry_def tech_entry_def)
  from row_flex_patterns row_flex_detected f c n show ?thesis by blast
qed

lemma btn_tailwind_facts:
  "str_includes btn_tailwind_body ''tailwind''" "test False re_bootstrap btn_tailwind_body"
  by code_simp+

lemma no_header_named: "\<not> header_named (\<lambda>name. None) n"
  by (simp add: header_named_def header_technologies_def Let_def push_if_def truthy_def)

theorem tailwind_excludes_bootstrap_witness:
  "str_includes btn_tailwind_body ''tailwind''
   \<and> test False re_bootstrap btn_tailwind_body
   \<and> ts_status (detectTechStack (world_of btn_tailwind) ''https://example.com'') = Completed
   \<and> (\<exists>detected. ts_detected (detectTechStack (world_of btn_tailwind) ''https://example.com'')
          = Some detected
        \<and> tailwind_entry \<in> set detected \<and> bootstrap_entry \<notin> set detected
        \<and> ''Bootstrap'' \<notin> tech_name ` set detected)"
proof -
  define r where "r = \<lparr>resp_ok = True, resp_status = 200,
      resp_headers = map_of ([] :: (string \<times> string) list), resp_text = Inr btn_tailwind_body\<rparr>"
  have f: "tech_fetch (world_of btn_tailwind) = Inr r" "resp_text r = Inr btn_tailwind_body"
    by (simp_all add: world_of_def btn_tailwind_def page_def r_def)
  have h: "\<not> header_named (resp_headers r) ''Bootstrap''"
    by (simp add: r_def no_header_named)
  from tailwind_excludes_bootstrap[OF f, of "''https://example.com''"] btn_tailwind_facts h
  show ?thesis by blast
qed

subsection \<open>The overall score\<close>

lemma weighted_sum_bounds:
  fixes ps :: "(rat \<times> rat) list"
  assumes "\<forall>(wt, sc) \<in> set ps. 0 < wt \<and> 0 \<le> sc \<and> sc \<le> 100"
  shows "0 \<le> (\<Sum>(wt, sc) \<leftarrow> ps. wt * sc)
     \<and> (\<Sum>(wt, sc) \<leftarrow> ps. wt * sc) \<le> 100 * (\<Sum>(wt, sc) \<leftarrow> ps. wt)
     \<and> 0 \<le> (\<Sum>(wt, sc) \<leftarrow> ps. wt)
     \<and> (ps \<noteq> [] \<longrightarrow> 0 < (\<Sum>(wt, sc) \<leftarrow> ps. wt))"
  using assms
proof (induction ps)
  case Nil
  show ?case by simp
next
  case (Cons a ps)
  obtain wt sc where a: "a = (wt, sc)" by (cases a)
  from Cons.prems a have w: "0 < wt" "0 \<le> sc" "sc \<le> 100" by simp_all
  from Cons.prems have "\<forall>(wt, sc) \<in> set ps. 0 < wt \<and> 0 \<le> sc \<and> sc \<le> 100" by simp
  from Cons.IH[OF this] have ih: "0 \<le> (\<Sum>(wt, sc) \<leftarrow> ps. wt * sc)"
      "(\<Sum>(wt, sc) \<leftarrow> ps. wt * sc) \<le> 100 * (\<Sum>(wt, sc) \<leftarrow> ps. wt)"
      "0 \<le> (\<Sum>(wt, sc) \<leftarrow> ps. wt)"
    by simp_all
  have m: "0 \<le> wt * sc" "wt * sc \<le> 100 * wt"
    using w by (simp_all add: mult.commute[of wt sc])
  have e: "(\<Sum>(wt, sc) \<leftarrow> a # ps. wt * sc) = wt * sc + (\<Sum>(wt, sc) \<leftarrow> ps. wt * sc)"
      "(\<Sum>(wt, sc) \<leftarrow> a # ps. wt) = wt + (\<Sum>(wt, sc) \<leftarrow> ps. wt)"
    by (simp_all add: a)
  have d: "100 * (wt + (\<Sum>(wt, sc) \<leftarrow> ps. wt)) = 100 * wt + 100 * (\<Sum>(wt, sc) \<leftarrow> ps. wt)"
    by (simp add: algebra_simps)
  show ?case unfolding e d using ih m w(1) by (intro conjI impI; linarith)
qed

lemma weighted_mean_bounds:
  fixes ps :: "(rat \<times> rat) list"
  assumes "\<forall>(wt, sc) \<in> set ps. 0 < wt \<and> 0 \<le> sc \<and> sc \<le> 100" "ps \<noteq> []"
  shows "0 \<le> weighted_mean ps" "weighted_mean ps \<le> 100"
proof -
  from weighted_sum_bounds[OF assms(1)] assms(2)
  have s: "0 \<le> (\<Sum>(wt, sc) \<leftarrow> ps. wt * sc)"
      "(\<Sum>(wt, sc) \<leftarrow> ps. wt * sc) \<le> 100 * (\<Sum>(wt, sc) \<leftarrow> ps. wt)"
      "0 < (\<Sum>(wt, sc) \<leftarrow> ps. wt)"
    by simp_all
  show "0 \<le> weighted_mean ps" using s(1,3) by (simp add: weighted_mean_def)
  show "weighted_mean ps \<le> 100" using s(2,3) by (simp add: weighted_mean_def pos_divide_le_eq)
qed

lemma js_round_bounds:
  assumes "0 \<le> x" "x \<le> 100"
  shows "0 \<le> js_round x" "js_round x \<le> 100"
proof -
  show "0 \<le> js_round x" using assms(1) by (simp add: js_round_def)
  have "x + 1 / 2 < 101" using assms(2) by simp
  then have "\<lfloor>x + 1 / 2\<rfloor> < 101" by (simp add: floor_less_iff)
  then show "js_round x \<le> 100" by (simp add: js_round_def)
qed

lemma or_num_Some: "or_num (Some x) 0 = x" "q \<noteq> 0 \<Longrightarrow> or_num (Some q) d = q"
  by (simp_all add: or_num_def)

lemma overall_as_mean:
  assumes sec: "sec_status (security r) = Completed \<Longrightarrow>
      \<exists>p q. sec_checks_passed (security r) = Some p \<and> sec_checks_performed (security r) = Some q \<and> q \<noteq> 0"
    and perf: "perf_status (performance r) = Completed \<Longrightarrow> \<exists>s. perf_score (performance r) = Some s"
    and acc: "acc_status (accessibility r) = Completed \<Longrightarrow> \<exists>s. acc_score (accessibility r) = Some s"
    and e2e: "e2e_status (e2e r) = Completed \<Longrightarrow> \<exists>n. e2e_buttons_found (e2e r) = Some n"
  shows "calculateOverallScore r = expected_overall r"
proof -
  have S: "sec_status (security r) = Completed \<Longrightarrow>
      or_num (sec_checks_passed (security r)) 0 = the (sec_checks_passed (security r))
      \<and> or_num (sec_checks_performed (security r)) 1 = the (sec_checks_performed (security r))"
    using sec by (auto simp: or_num_Some)
  have P: "perf_status (performance r) = Completed \<Longrightarrow>
      or_num (perf_score (performance r)) 0 = the (perf_score (performance r))"
    using perf by (auto simp: or_num_Some)
  have A: "acc_status (accessibility r) = Completed \<Longrightarrow>
      or_num (acc_score (accessibility r)) 0 = the (acc_score (accessibility r))"
    using acc by (auto simp: or_num_Some)
  have E: "e2e_status (e2e r) = Completed \<Longrightarrow>
      or_num (e2e_buttons_found (e2e r)) 0 = the (e2e_buttons_found (e2e r))"
    using e2e by (auto simp: or_num_Some)
  show ?thesis
    unfolding calculateOverallScore_def expected_overall_def completed_subscores_def
      weighted_mean_def Let_def w_security_def w_performance_def w_accessibility_def
      w_e2e_def w_api_def
    by (simp add: S P A E algebra_simps)
qed

lemma sec_payload:
  assumes "sec_status (performSecurityScan w url) = Completed"
  shows "\<exists>n. n \<le> 6 \<and> sec_checks_passed (performSecurityScan w url) = Some (7 - int n)
     \<and> sec_checks_performed (performSecurityScan w url) = Some 7"
proof -
  from assms have "\<not> fetch_fails (sec_fetch w)" by (simp add: sec_status_cases split: if_splits)
  with fetch_fails_cases[of "sec_fetch w"]
  obtain r html where "sec_fetch w = Inr r" "resp_text r = Inr html" by blast
  from security_completed[OF this, of url] checklist_length[of "resp_headers r" html]
  show ?thesis by auto
qed

lemma total_deduction_nonneg: "0 \<le> total_deduction issues"
  unfolding total_deduction_def by (rule sum_list_nonneg) (auto simp: deduction_def)

lemma acc_payload:
  assumes "acc_status (performAccessibilityScan w url) = Completed"
  shows "\<exists>s. acc_score (performAccessibilityScan w url) = Some s \<and> 0 \<le> s \<and> s \<le> 100"
proof -
  from assms have "\<not> fetch_fails (acc_fetch w)" by (simp add: acc_status_cases split: if_splits)
  with fetch_fails_cases[of "acc_fetch w"]
  obtain r html where "acc_fetch w = Inr r" "resp_text r = Inr html" by blast
  from accessibility_completed[OF this, of url] total_deduction_nonneg[of "accessibility_issues html"]
  show ?thesis by auto
qed

lemma e2e_payload:
  assumes "e2e_status (performE2EScan w url) = Completed"
  shows "\<exists>n. e2e_buttons_found (performE2EScan w url) = Some n"
proof -
  from assms e2e_cases[of w] e2e_rejected[of w url]
  obtain r html where f: "e2e_fetch w = Inr r" "resp_ok r" "resp_text r = Inr html"
    by (auto simp: e2e_failed_def)
  show ?thesis
    by (cases "dom_parser w html")
      (simp_all add: e2e_answered[OF f] e2e_regex_def e2e_dom_def Let_def)
qed

lemma basic_score_range: "0 \<le> basic_score l i s c g h \<and> basic_score l i s c g h \<le> 100"
  using basic_deduction_nonneg[of l i s c "g = Some True" h]
  by (simp add: basic_score_deduction)

lemma perf_payload:
  assumes "pagespeed_contract w" "perf_status (performPerformanceScan w url) = Completed"
  shows "\<exists>s. perf_score (performPerformanceScan w url) = Some s \<and> 0 \<le> s \<and> s \<le> 100"
proof (cases "perf_fallback w")
  case True
  with assms(2) have "\<not> fetch_fails (perf_fetch w)"
    by (simp add: perf_status_cases split: if_splits)
  with fetch_fails_cases[of "perf_fetch w"]
  obtain r html where f: "perf_fetch w = Inr r" "resp_text r = Inr html" by blast
  show ?thesis
    using basic_score_range
    by (simp add: fallback_basic[OF True] basic_completed[OF f] try_catch_def)
next
  case False
  then obtain report where k: "truthy (pagespeedApiKey w)" and p: "pagespeed w = Inr report"
    by (cases "pagespeed w") (auto simp: perf_fallback_def)
  with assms(1) show ?thesis
    by (simp add: performPerformanceScan_def performGooglePageSpeedScan_def try_catch_def
        pagespeed_contract_def)
qed

lemma scan_subscores_in_range:
  assumes "pagespeed_contract w"
  shows "\<forall>(wt, sc) \<in> set (completed_subscores (performScan w url)). 0 < wt \<and> 0 \<le> sc \<and> sc \<le> 100"
proof -
  have s: "sec_status (performSecurityScan w url) = Completed \<Longrightarrow>
      0 \<le> (of_int (the (sec_checks_passed (performSecurityScan w url))) :: rat)
            / of_int (the (sec_checks_performed (performSecurityScan w url))) * 100
      \<and> (of_int (the (sec_checks_passed (performSecurityScan w url))) :: rat)
            / of_int (the (sec_checks_performed (performSecurityScan w url))) * 100 \<le> 100"
  proof -
    assume "sec_status (performSecurityScan w url) = Completed"
    from sec_payload[OF this] obtain n where "n \<le> 6"
      "sec_checks_passed (performSecurityScan w url) = Some (7 - int n)"
      "sec_checks_performed (performSecurityScan w url) = Some 7" by blast
    then show ?thesis by simp
  qed
  have p: "perf_status (performPerformanceScan w url) = Completed \<Longrightarrow>
      0 \<le> the (perf_score (performPerformanceScan w url))
      \<and> the (perf_score (performPerformanceScan w url)) \<le> 100"
    using perf_payload[OF assms, of url] by auto
  have a: "acc_status (performAccessibilityScan w url) = Completed \<Longrightarrow>
      0 \<le> the (acc_score (performAccessibilityScan w url))
      \<and> the (acc_score (performAccessibilityScan w url)) \<le> 100"
    using acc_payload[of w url] by auto
  show ?thesis
    using s p a by (auto simp: completed_subscores_def performScan_slots)
qed

text \<open>
  Claim C1. For every scan (in which the page-speed service keeps its score range), the
  overall score is an integer between 0 and 100 and equals the rounded weighted mean of
  the sub-scores of exactly the analyzers whose status is Completed, with the weights
  security 0.30, performance 0.25, accessibility 0.25, e2e 0.10, api 0.10 and the
  sub-scores \<open>checks_passed / checks_performed * 100\<close>, the performance score, the
  accessibility score, 80 or 50 according to \<open>buttons_found > 0\<close>, and 70; an analyzer
  that is not Completed adds neither weight nor numerator; when none of the five
  completed, the overall score is 0. Numbers are exact rationals here.
\<close>

theorem overall_score_weighted_mean:
  assumes "pagespeed_contract w"
  shows "0 \<le> calculateOverallScore (performScan w url)
     \<and> calculateOverallScore (performScan w url) \<le> 100
     \<and> calculateOverallScore (performScan w url) = expected_overall (performScan w url)
     \<and> (sec_status (security (performScan w url)) \<noteq> Completed
          \<and> perf_status (performance (performScan w url)) \<noteq> Completed
          \<and> acc_status (accessibility (performScan w url)) \<noteq> Completed
          \<and> e2e_status (e2e (performScan w url)) \<noteq> Completed
          \<and> api_status (api (performScan w url)) \<noteq> Completed
        \<longrightarrow> calculateOverallScore (performScan w url) = 0)"
proof -
  have eq: "calculateOverallScore (performScan w url) = expected_overall (performScan w url)"
  proof (rule overall_as_mean)
    assume "sec_status (security (performScan w url)) = Completed"
    then show "\<exists>p q. sec_checks_passed (security (performScan w url)) = Some p
        \<and> sec_checks_performed (security (performScan w url)) = Some q \<and> q \<noteq> 0"
      using sec_payload[of w url] by (auto simp: performScan_slots)
  next
    assume "perf_status (performance (performScan w url)) = Completed"
    then show "\<exists>s. perf_score (performance (performScan w url)) = Some s"
      using perf_payload[OF assms, of url] by (auto simp: performScan_slots)
  next
    assume "acc_status (accessibility (performScan w url)) = Completed"
    then show "\<exists>s. acc_score (accessibility (performScan w url)) = Some s"
      using acc_payload[of w url] by (auto simp: performScan_slots)
  next
    assume "e2e_status (e2e (performScan w url)) = Completed"
    then show "\<exists>n. e2e_buttons_found (e2e (performScan w url)) = Some n"
      using e2e_payload[of w url] by (auto simp: performScan_slots)
  qed
  have range: "0 \<le> expected_overall (performScan w url) \<and> expected_overall (performScan w url) \<le> 100"
  proof (cases "completed_subscores (performScan w url) = []")
    case True
    then show ?thesis by (simp add: expected_overall_def)
  next
    case False
    from weighted_mean_bounds[OF scan_subscores_in_range[OF assms] False]
    have "0 \<le> weighted_mean (completed_subscores (performScan w url))"
      "weighted_mean (completed_subscores (performScan w url)) \<le> 100" .
    from js_round_bounds[OF this] False show ?thesis by (simp add: expected_overall_def)
  qed
  have none: "sec_status (security (performScan w url)) \<noteq> Completed
          \<and> perf_status (performance (performScan w url)) \<noteq> Completed
          \<and> acc_status (accessibility (performScan w url)) \<noteq> Completed
          \<and> e2e_status (e2e (performScan w url)) \<noteq> Completed
          \<and> api_status (api (performScan w url)) \<noteq> Completed
        \<Longrightarrow> expected_overall (performScan w url) = 0"
    by (simp add: expected_overall_def completed_subscores_def)
  from eq range none show ?thesis by simp
qed

lemma world_of_contract: "pagespeed_contract (world_of f)"
  by (simp add: pagespeed_contract_def world_of_def)

lemma one_image_overall:
  "calculateOverallScore (performScan (world_of one_image) ''https://example.com'') = 54"
  by code_simp

lemma pagespeed_only_overall:
  "pagespeed_contract pagespeed_only"
  "calculateOverallScore (performScan pagespeed_only ''https://example.com'') = 90"
  by code_simp+

theorem overall_score_weighted_mean_witness:
  "pagespeed_contract (world_of one_image)
   \<and> calculateOverallScore (performScan (world_of one_image) ''https://example.com'') = 54
   \<and> expected_overall (performScan (world_of one_image) ''https://example.com'') = 54
   \<and> pagespeed_contract pagespeed_only
   \<and> calculateOverallScore (performScan pagespeed_only ''https://example.com'') = 90
   \<and> expected_overall (performScan pagespeed_only ''https://example.com'') = 90
   \<and> pagespeed_contract (world_of timeout)
   \<and> calculateOverallScore (performScan (world_of timeout) ''https://example.com'') = 0"
proof -
  have n: "sec_status (security (performScan (world_of timeout) ''https://example.com'')) \<noteq> Completed
      \<and> perf_status (performance (performScan (world_of timeout) ''https://example.com'')) \<noteq> Completed
      \<and> acc_status (accessibility (performScan (world_of timeout) ''https://example.com'')) \<noteq> Completed
      \<and> e2e_status (e2e (performScan (world_of timeout) ''https://example.com'')) \<noteq> Completed
      \<and> api_status (api (performScan (world_of timeout) ''https://example.com'')) \<noteq> Completed"
    by (simp add: performScan_slots sec_status_cases perf_status_cases acc_status_cases
        e2e_status_cases api_status_cases no_key)
      (simp add: world_of_def timeout_fails)
  from overall_score_weighted_mean[OF world_of_contract, of one_image "''https://example.com''"]
    overall_score_weighted_mean[OF world_of_contract, of timeout "''https://example.com''"]
    overall_score_weighted_mean[OF pagespeed_only_overall(1), of "''https://example.com''"]
    one_image_overall n world_of_contract pagespeed_only_overall
  show ?thesis by simp
qed

subsection \<open>Top issues\<close>

lemma sorted_split_at:
  assumes "sorted (map f ys)"
  shows "ys = filter (\<lambda>y. f y \<le> k) ys @ filter (\<lambda>y. \<not> f y \<le> k) ys"
  using assms
proof (induction ys)
  case Nil
  show ?case by simp
next
  case (Cons y ys)
  then have le: "\<forall>z \<in> set ys. f y \<le> f z" and s: "sorted (map f ys)" by simp_all
  show ?case
  proof (cases "f y \<le> k")
    case True
    with Cons.IH[OF s] show ?thesis by simp
  next
    case False
    with le have "\<forall>z \<in> set ys. \<not> f z \<le> k" by auto
    then have "filter (\<lambda>y. f y \<le> k) ys = []" "filter (\<lambda>y. \<not> f y \<le> k) ys = ys"
      by (simp_all add: filter_empty_conv filter_id_conv)
    with False show ?thesis by simp
  qed
qed

lemma take_sort_key_mem:
  assumes "x \<in> set xs" "length (filter (\<lambda>y. f y \<le> f x) xs) \<le> n"
  shows "x \<in> set (take n (sort_key f xs))"
proof -
  define ys where "ys = sort_key f xs"
  define front where "front = filter (\<lambda>y. f y \<le> f x) ys"
  have "sorted (map f ys)" by (simp add: ys_def)
  from sorted_split_at[OF this, of "f x"]
  have split: "ys = front @ filter (\<lambda>y. \<not> f y \<le> f x) ys" by (simp add: front_def)
  have "front = sort_key f (filter (\<lambda>y. f y \<le> f x) xs)"
    by (simp add: front_def ys_def filter_sort)
  then have "length front \<le> n" using assms(2) by simp
  moreover have "x \<in> set front" using assms(1) by (simp add: front_def ys_def)
  ultimately have "x \<in> set (take n (front @ filter (\<lambda>y. \<not> f y \<le> f x) ys))" by simp
  with split show ?thesis by (simp add: ys_def)
qed

lemma length_filter_filter_le:
  "length (filter P (map g (map snd (filter fst xs)))) \<le> length (filter P (map g (map snd xs)))"
proof (induction xs)
  case Nil
  show ?case by simp
next
  case (Cons a xs)
  then show ?case by (cases "fst a") auto
qed

lemma security_rank:
  "sort_rank (security_top_issue (security_issue sev d))
     = or_num (sortOrder (if sev = [] then ''low'' else sev)) 99"
  by (simp add: sort_rank_def security_top_issue_def security_issue_def or_str_def)

lemma sortOrder_values:
  "or_num (sortOrder ''critical'') 99 = 99" "or_num (sortOrder ''high'') 99 = 1"
  "or_num (sortOrder ''medium'') 99 = 2" "or_num (sortOrder ''low'') 99 = 3"
  by (simp_all add: sortOrder_def or_num_def)

lemma checklist_high_count:
  "length (filter (\<lambda>y. sort_rank y \<le> 1)
     (map security_top_issue (map snd (filter fst (security_checklist h html))))) \<le> 3"
proof -
  have "length (filter (\<lambda>y. sort_rank y \<le> 1)
      (map security_top_issue (map snd (security_checklist h html)))) = 3"
    by (simp add: security_checklist_def hsts_issue_def nosniff_issue_def clickjacking_issue_def
        csp_issue_def xss_issue_def cookie_issue_def security_rank sortOrder_values)
  with length_filter_filter_le[of "\<lambda>y. sort_rank y \<le> 1" security_top_issue "security_checklist h html"]
  show ?thesis by simp
qed

lemma security_high_count:
  "\<exists>xs. sec_issues (performSecurityScan w url) = Some xs
     \<and> length (filter (\<lambda>y. sort_rank y \<le> 1) (map security_top_issue xs)) \<le> 3"
  using fetch_fails_cases[of "sec_fetch w"]
proof
  assume "fetch_fails (sec_fetch w)"
  from security_failed[OF this, of url] show ?thesis by auto
next
  assume "\<exists>r html. sec_fetch w = Inr r \<and> resp_text r = Inr html"
  then obtain r html where "sec_fetch w = Inr r" "resp_text r = Inr html" by blast
  from security_completed[OF this, of url] checklist_high_count[of "resp_headers r" html]
  show ?thesis by simp
qed

lemma accessibility_rank:
  "sort_rank (accessibility_top_issue \<lparr>acc_severity = sev, acc_count = c, acc_message = m, acc_wcag = g\<rparr>)
     = or_num (sortOrder (if sev = [] then ''low'' else sev)) 99"
  by (simp add: sort_rank_def accessibility_top_issue_def or_str_def)

lemma high_count_push_if:
  "length (filter P (push_if c x xs)) = length (filter P xs) + (if c \<and> P x then 1 else 0)"
  by (simp add: push_if_def)

lemma accessibility_issues_high_count:
  "length (filter (\<lambda>y. sort_rank y \<le> 1)
     (map accessibility_top_issue (accessibility_issues html))) \<le> 3"
  unfolding accessibility_issues_def Let_def
  by (simp add: high_count_push_if accessibility_rank sortOrder_values)

lemma accessibility_high_count:
  "\<exists>xs. acc_issues (performAccessibilityScan w url) = Some xs
     \<and> length (filter (\<lambda>y. sort_rank y \<le> 1) (map accessibility_top_issue xs)) \<le> 3"
  using fetch_fails_cases[of "acc_fetch w"]
proof
  assume "fetch_fails (acc_fetch w)"
  from accessibility_failed[OF this, of url] show ?thesis by auto
next
  assume "\<exists>r html. acc_fetch w = Inr r \<and> resp_text r = Inr html"
  then obtain r html where "acc_fetch w = Inr r" "resp_text r = Inr html" by blast
  from accessibility_completed[OF this, of url] accessibility_issues_high_count[of html]
  show ?thesis by simp
qed

lemma performance_failed_score:
  assumes "perf_status (performPerformanceScan w url) = Failed"
  shows "perf_score (performPerformanceScan w url) = Some 0"
proof -
  from assms have f: "perf_fallback w" "fetch_fails (perf_fetch w)"
    by (simp_all add: perf_status_cases split: if_splits)
  from basic_rejected[OF f(2), of url] obtain e where "performBasicPerformanceScan w url = Inl e"
    by blast
  then show ?thesis by (simp add: fallback_basic[OF f(1)] try_catch_def)
qed

lemma performance_issue_rank: "sort_rank (performance_top_issue s) = 1"
  by (simp add: sort_rank_def performance_top_issue_def sortOrder_values)

lemma poor_performance_text:
  "description (performance_top_issue 0) = ''Poor performance score (0/100) - site loads slowly''"
  by code_simp

text \<open>
  Claim C10. When the performance analyzer returns Failed, its slot still carries
  \<open>score = 0\<close>, which is defined and below 50, so the top issues of the scan contain
  the synthetic Performance issue of severity high with the description
  \<open>Poor performance score (0/100) - site loads slowly\<close>: it is appended, and it is
  among the ten issues kept after sorting.
\<close>

theorem failed_performance_top_issue:
  assumes "perf_status (performance (performScan w url)) = Failed"
  shows "perf_score (performance (performScan w url)) = Some 0
     \<and> performance_top_issue 0 \<in> set (extractTopIssues (performScan w url))
     \<and> category (performance_top_issue 0) = ''Performance''
     \<and> severity (performance_top_issue 0) = ''high''
     \<and> description (performance_top_issue 0)
         = ''Poor performance score (0/100) - site loads slowly''"
proof -
  from assms have z: "perf_score (performPerformanceScan w url) = Some 0"
    by (simp add: performScan_slots performance_failed_score)
  from security_high_count[of w url] obtain secs where
    s: "sec_issues (performSecurityScan w url) = Some secs"
      "length (filter (\<lambda>y. sort_rank y \<le> 1) (map security_top_issue secs)) \<le> 3" by blast
  from accessibility_high_count[of w url] obtain accs where
    a: "acc_issues (performAccessibilityScan w url) = Some accs"
      "length (filter (\<lambda>y. sort_rank y \<le> 1) (map accessibility_top_issue accs)) \<le> 3" by blast
  define issues where
    "issues = map security_top_issue secs @ map accessibility_top_issue accs @ [performance_top_issue 0]"
  have e: "extractTopIssues (performScan w url) = take 10 (sort_key sort_rank issues)"
    by (simp add: extractTopIssues_def Let_def performScan_slots z s(1) a(1) issues_def)
  have "length (filter (\<lambda>y. sort_rank y \<le> sort_rank (performance_top_issue 0)) issues) \<le> 10"
    using s(2) a(2) by (simp add: issues_def performance_issue_rank)
  moreover have "performance_top_issue 0 \<in> set issues" by (simp add: issues_def)
  ultimately have "performance_top_issue 0 \<in> set (take 10 (sort_key sort_rank issues))"
    by (intro take_sort_key_mem)
  with e z poor_performance_text show ?thesis
    by (simp add: performScan_slots) (simp add: performance_top_issue_def)
qed

theorem failed_performance_top_issue_witness:
  "perf_status (performance (performScan (world_of timeout) ''https://example.com'')) = Failed
   \<and> perf_score (performance (performScan (world_of timeout) ''https://example.com'')) = Some 0
   \<and> performance_top_issue 0
       \<in> set (extractTopIssues (performScan (world_of timeout) ''https://example.com''))
   \<and> severity (performance_top_issue 0) = ''high''"
proof -
  have f: "perf_status (performance (performScan (world_of timeout) ''https://example.com'')) = Failed"
    by (simp add: performScan_slots perf_status_cases no_key) (simp add: world_of_def timeout_fails)
  from failed_performance_top_issue[OF f] f show ?thesis by simp
qed

text \<open>
  Claim C2, evaluated at an input where it fails. The page \<^verbatim>\<open><img>\<close> served without
  security headers gives five security issues (high, medium, high, medium, low) and three
  accessibility issues (critical, high, low). The comparator's key
  \<^verbatim>\<open>sortOrder[a.severity] || 99\<close> is 99 for \<open>critical\<close>, whose rank 0 is falsy, so
  the critical issue is sorted after the low ones instead of first.
\<close>

theorem critical_issue_sorted_last:
  "map severity (extractTopIssues (performScan (world_of one_image) ''https://example.com''))
     = [''high'', ''high'', ''high'', ''medium'', ''medium'', ''low'', ''low'', ''critical'']"
  by code_simp

end
